theory Spec2Isabelle
  imports Complex_Main
begin

section \<open>The decimation script \<^verbatim>\<open>scripts/decimate_beetle.py\<close>\<close>

text \<open>
  The repository is one Python script that drives a 3D application through its
  scripting interface (\<^verbatim>\<open>bpy\<close>) and the file system through \<^verbatim>\<open>os.path\<close>.
  The script is embedded as a function from the host's state to an outcome, the list of
  the effects it performed (prints and host calls, in order) and the host's final state.
  Everything the host does is a parameter of the model: a record of functions over an
  arbitrary state type \<open>'h\<close>. A host call may raise; it returns the error (if any)
  together with the state it leaves behind. Reading an attribute of a host object
  (\<^verbatim>\<open>obj.type\<close>, \<^verbatim>\<open>obj.name\<close>, \<^verbatim>\<open>len(obj.data.vertices)\<close>, the objects of the scene)
  and \<^verbatim>\<open>os.path.exists\<close> are observations of the host's state; they and \<^verbatim>\<open>print\<close>
  are taken not to raise, and every host call is taken to return or raise.

  Floating-point numbers are idealised as reals; formatted printing keeps the
  number and the format specification instead of rendering digits.
\<close>

subsection \<open>Configuration (lines 13 to 15)\<close>

definition INPUT_PATH :: string where
  "INPUT_PATH = ''public/assets/models/beetle_shell.glb''"

definition OUTPUT_PATH :: string where
  "OUTPUT_PATH = ''public/assets/models/beetle_shell_optimized.glb''"

definition TARGET_RATIO :: real where
  "TARGET_RATIO = 2 / 100"

subsection \<open>Path functions of the standard library (POSIX flavour)\<close>

text \<open>
  \<^verbatim>\<open>os.path.dirname\<close> and \<^verbatim>\<open>os.path.join\<close> as \<^verbatim>\<open>posixpath\<close> computes them on
  byte strings: \<open>dirname\<close> cuts after the last separator and strips trailing
  separators unless the head consists of separators only; \<open>join\<close> restarts at an
  absolute second component and inserts a separator only when one is needed.
\<close>

definition sep :: char where
  "sep = CHR ''/''"

definition rstrip_sep :: "string \<Rightarrow> string" where
  "rstrip_sep p = rev (dropWhile (\<lambda>c. c = sep) (rev p))"

definition dirname :: "string \<Rightarrow> string" where
  "dirname p =
     (let head = rev (dropWhile (\<lambda>c. c \<noteq> sep) (rev p))
      in if head \<noteq> [] \<and> head \<noteq> replicate (length head) sep then rstrip_sep head else head)"

definition join :: "string \<Rightarrow> string \<Rightarrow> string" where
  "join a b =
     (if take 1 b = [sep] then b
      else if a = [] \<or> last a = sep then a @ b
      else a @ [sep] @ b)"

subsection \<open>Effects, outcomes and the host interface\<close>

type_synonym obj = nat
type_synonym modifier = nat

text \<open>
  A printed line is the list of the pieces of its f-string: literal text, and
  interpolated values with their format (\<open>Num\<close> plain, \<open>NumSep\<close> for \<^verbatim>\<open>:,\<close>,
  \<open>Flt\<close> plain, \<open>Flt1\<close> for \<^verbatim>\<open>:.1f\<close>, \<open>Flt2\<close> for \<^verbatim>\<open>:.2f\<close>).
\<close>

datatype piece = Txt string | Num nat | NumSep nat | Flt real | Flt1 real | Flt2 real

datatype call =
    ReadFactorySettings bool
  | ImportGltf string
  | SetActive obj
  | SelectSet obj bool
  | ModifiersNew obj string string
  | SetDecimateType modifier string
  | SetRatio modifier real
  | SetUseCollapseTriangulate modifier bool
  | ModifierApply string
  | ExportGltf string string bool bool
  | GetSize string

datatype reply = Returned | ReturnedModifier modifier | ReturnedSize nat | Raised string

datatype event = Print "piece list" | Call call reply

datatype error = ZeroDivisionError | HostError string

text \<open>
  How a piece of script ends: it completes with a value, it calls \<^verbatim>\<open>sys.exit\<close>
  with a code, or an exception leaves it.
\<close>

datatype 'a result = Done 'a | Exit int | Raise error

record 'h host =
  read_factory_settings :: "bool \<Rightarrow> 'h \<Rightarrow> string option \<times> 'h"
  import_scene_gltf :: "string \<Rightarrow> 'h \<Rightarrow> string option \<times> 'h"
  scene_objects :: "'h \<Rightarrow> obj list"
  obj_type :: "'h \<Rightarrow> obj \<Rightarrow> string"
  obj_name :: "'h \<Rightarrow> obj \<Rightarrow> string"
  num_vertices :: "'h \<Rightarrow> obj \<Rightarrow> nat"
  set_active :: "obj \<Rightarrow> 'h \<Rightarrow> string option \<times> 'h"
  select_set :: "obj \<Rightarrow> bool \<Rightarrow> 'h \<Rightarrow> string option \<times> 'h"
  modifiers_new :: "obj \<Rightarrow> string \<Rightarrow> string \<Rightarrow> 'h \<Rightarrow> (string + modifier) \<times> 'h"
  set_decimate_type :: "modifier \<Rightarrow> string \<Rightarrow> 'h \<Rightarrow> string option \<times> 'h"
  set_ratio :: "modifier \<Rightarrow> real \<Rightarrow> 'h \<Rightarrow> string option \<times> 'h"
  set_use_collapse_triangulate :: "modifier \<Rightarrow> bool \<Rightarrow> 'h \<Rightarrow> string option \<times> 'h"
  modifier_apply :: "string \<Rightarrow> 'h \<Rightarrow> string option \<times> 'h"
  export_scene_gltf :: "string \<Rightarrow> string \<Rightarrow> bool \<Rightarrow> bool \<Rightarrow> 'h \<Rightarrow> string option \<times> 'h"
  path_exists :: "'h \<Rightarrow> string \<Rightarrow> bool"
  path_getsize :: "'h \<Rightarrow> string \<Rightarrow> string + nat"

type_synonym ('h, 'a) script = "'h \<Rightarrow> 'a result \<times> event list \<times> 'h"

definition outcome :: "'a result \<times> event list \<times> 'h \<Rightarrow> 'a result" where
  "outcome run = fst run"

definition trace :: "'a result \<times> event list \<times> 'h \<Rightarrow> event list" where
  "trace run = fst (snd run)"

definition final :: "'a result \<times> event list \<times> 'h \<Rightarrow> 'h" where
  "final run = snd (snd run)"

subsection \<open>Statements\<close>

definition ret :: "'a \<Rightarrow> ('h, 'a) script" where
  "ret a h = (Done a, [], h)"

text \<open>Sequencing: the second part runs only when the first completes.\<close>

definition bind :: "('h, 'a) script \<Rightarrow> ('a \<Rightarrow> ('h, 'b) script) \<Rightarrow> ('h, 'b) script" where
  "bind m f h =
     (case m h of
        (Done a, es, h') \<Rightarrow> (case f a h' of (r, es', h'') \<Rightarrow> (r, es @ es', h''))
      | (Exit n, es, h') \<Rightarrow> (Exit n, es, h')
      | (Raise e, es, h') \<Rightarrow> (Raise e, es, h'))"

definition print :: "piece list \<Rightarrow> ('h, unit) script" where
  "print ps h = (Done (), [Print ps], h)"

definition get :: "('h \<Rightarrow> 'a) \<Rightarrow> ('h, 'a) script" where
  "get f h = (Done (f h), [], h)"

definition sys_exit :: "int \<Rightarrow> ('h, 'a) script" where
  "sys_exit n h = (Exit n, [], h)"

definition invoke :: "call \<Rightarrow> ('h \<Rightarrow> string option \<times> 'h) \<Rightarrow> ('h, unit) script" where
  "invoke c op h =
     (case op h of
        (None, h') \<Rightarrow> (Done (), [Call c Returned], h')
      | (Some e, h') \<Rightarrow> (Raise (HostError e), [Call c (Raised e)], h'))"

definition invoke_new :: "call \<Rightarrow> ('h \<Rightarrow> (string + modifier) \<times> 'h) \<Rightarrow> ('h, modifier) script" where
  "invoke_new c op h =
     (case op h of
        (Inr m, h') \<Rightarrow> (Done m, [Call c (ReturnedModifier m)], h')
      | (Inl e, h') \<Rightarrow> (Raise (HostError e), [Call c (Raised e)], h'))"

definition invoke_getsize :: "call \<Rightarrow> ('h \<Rightarrow> string + nat) \<Rightarrow> ('h, nat) script" where
  "invoke_getsize c op h =
     (case op h of
        Inr n \<Rightarrow> (Done n, [Call c (ReturnedSize n)], h)
      | Inl e \<Rightarrow> (Raise (HostError e), [Call c (Raised e)], h))"

text \<open>Python's \<^verbatim>\<open>/\<close> on two integers: a float, or \<^verbatim>\<open>ZeroDivisionError\<close>.\<close>

definition true_div :: "nat \<Rightarrow> nat \<Rightarrow> ('h, real) script" where
  "true_div a b h = (if b = 0 then (Raise ZeroDivisionError, [], h) else (Done (real a / real b), [], h))"

fun for_each :: "'x list \<Rightarrow> ('x \<Rightarrow> ('h, unit) script) \<Rightarrow> ('h, unit) script" where
  "for_each [] body h = ret () h"
| "for_each (x # xs) body h = bind (body x) (\<lambda>_. for_each xs body) h"

subsection \<open>The script\<close>

text \<open>Line 36: the mesh objects of the scene, in scene order.\<close>

definition mesh_objects :: "'h host \<Rightarrow> 'h \<Rightarrow> obj list" where
  "mesh_objects env h = filter (\<lambda>obj. obj_type env h obj = ''MESH'') (scene_objects env h)"

text \<open>Lines 42 and 65: the sum of the vertex counts of the given objects.\<close>

definition total_verts :: "'h host \<Rightarrow> obj list \<Rightarrow> 'h \<Rightarrow> nat" where
  "total_verts env objs h = sum_list (map (num_vertices env h) objs)"

text \<open>The UTF-8 bytes of the arrow in the message of line 67.\<close>

definition arrow :: string where
  "arrow = [CHR 0xE2, CHR 0x86, CHR 0x92]"

text \<open>Lines 47 to 63: the body of the decimation loop.\<close>

definition decimate_mesh :: "'h host \<Rightarrow> obj \<Rightarrow> ('h, unit) script" where
  "decimate_mesh env obj =
     bind (get (\<lambda>h. obj_name env h obj)) (\<lambda>name.
     bind (get (\<lambda>h. num_vertices env h obj)) (\<lambda>n.
     bind (print [Txt ''[Decimate] Processing: '', Txt name, Txt '' ('', NumSep n, Txt '' verts)'']) (\<lambda>_.
     bind (invoke (SetActive obj) (set_active env obj)) (\<lambda>_.
     bind (invoke (SelectSet obj True) (select_set env obj True)) (\<lambda>_.
     bind (invoke_new (ModifiersNew obj ''Decimate'' ''DECIMATE'')
             (modifiers_new env obj ''Decimate'' ''DECIMATE'')) (\<lambda>modifier.
     bind (invoke (SetDecimateType modifier ''COLLAPSE'')
             (set_decimate_type env modifier ''COLLAPSE'')) (\<lambda>_.
     bind (invoke (SetRatio modifier TARGET_RATIO) (set_ratio env modifier TARGET_RATIO)) (\<lambda>_.
     bind (invoke (SetUseCollapseTriangulate modifier True)
             (set_use_collapse_triangulate env modifier True)) (\<lambda>_.
     bind (invoke (ModifierApply ''Decimate'') (modifier_apply env ''Decimate'')) (\<lambda>_.
     bind (get (\<lambda>h. num_vertices env h obj)) (\<lambda>n'.
     bind (print [Txt ''[Decimate] After: '', NumSep n', Txt '' verts'']) (\<lambda>_.
     invoke (SelectSet obj False) (select_set env obj False)))))))))))))"

text \<open>Lines 70 and 71.\<close>

definition select_mesh :: "'h host \<Rightarrow> obj \<Rightarrow> ('h, unit) script" where
  "select_mesh env obj = invoke (SelectSet obj True) (select_set env obj True)"

text \<open>
  \<open>main\<close>, lines 17 to 90. Its argument \<open>script_file\<close> is the value of
  \<^verbatim>\<open>os.path.abspath(__file__)\<close>.
\<close>

definition main :: "'h host \<Rightarrow> string \<Rightarrow> ('h, unit) script" where
  "main env script_file =
     (let script_dir = dirname script_file;
          project_root = dirname script_dir;
          input_file = join project_root INPUT_PATH;
          output_file = join project_root OUTPUT_PATH
      in
      bind (print [Txt ''[Decimate] Input: '', Txt input_file]) (\<lambda>_.
      bind (print [Txt ''[Decimate] Output: '', Txt output_file]) (\<lambda>_.
      bind (print [Txt ''[Decimate] Target ratio: '', Flt (TARGET_RATIO * 100), Txt ''%'']) (\<lambda>_.
      bind (invoke (ReadFactorySettings True) (read_factory_settings env True)) (\<lambda>_.
      bind (print [Txt ''[Decimate] Importing GLB...'']) (\<lambda>_.
      bind (invoke (ImportGltf input_file) (import_scene_gltf env input_file)) (\<lambda>_.
      bind (get (mesh_objects env)) (\<lambda>mesh_objects.
      if mesh_objects = [] then
        bind (print [Txt ''[Decimate] ERROR: No mesh objects found!'']) (\<lambda>_. sys_exit 1)
      else
      bind (get (total_verts env mesh_objects)) (\<lambda>total_verts_before.
      bind (print [Txt ''[Decimate] Found '', Num (length mesh_objects), Txt '' mesh(es), '',
                   NumSep total_verts_before, Txt '' vertices total'']) (\<lambda>_.
      bind (for_each mesh_objects (decimate_mesh env)) (\<lambda>_.
      bind (get (total_verts env mesh_objects)) (\<lambda>total_verts_after.
      bind (true_div total_verts_after total_verts_before) (\<lambda>quotient.
      let reduction = (1 - quotient) * 100 in
      bind (print [Txt ''[Decimate] Total: '', NumSep total_verts_before, Txt ('' '' @ arrow @ '' ''),
                   NumSep total_verts_after, Txt '' ('', Flt1 reduction, Txt ''% reduction)'']) (\<lambda>_.
      bind (for_each mesh_objects (select_mesh env)) (\<lambda>_.
      bind (print [Txt ''[Decimate] Exporting to '', Txt output_file, Txt ''...'']) (\<lambda>_.
      bind (invoke (ExportGltf output_file ''GLB'' True True)
              (export_scene_gltf env output_file ''GLB'' True True)) (\<lambda>_.
      bind (print [Txt ''[Decimate] DONE!'']) (\<lambda>_.
      bind (get (\<lambda>h. path_exists env h output_file)) (\<lambda>created.
      if created then
        bind (invoke_getsize (GetSize output_file) (\<lambda>h. path_getsize env h output_file)) (\<lambda>size.
        let size_mb = real size / (1024 * 1024) in
        print [Txt ''[Decimate] Output file size: '', Flt2 size_mb, Txt '' MB''])
      else
        bind (print [Txt ''[Decimate] ERROR: Output file was not created!'']) (\<lambda>_. sys_exit 1)
      )))))))))))))))))))"


subsection \<open>Vocabulary for runs: paths, messages and checkpoints\<close>

text \<open>The two paths \<open>main\<close> computes from the script's own location (lines 19 to 22).\<close>

definition input_file :: "string \<Rightarrow> string" where
  "input_file script_file = join (dirname (dirname script_file)) INPUT_PATH"

definition output_file :: "string \<Rightarrow> string" where
  "output_file script_file = join (dirname (dirname script_file)) OUTPUT_PATH"

text \<open>The printed lines, by the source line that prints them.\<close>

definition importing_msg :: event where
  "importing_msg = Print [Txt ''[Decimate] Importing GLB...'']"

definition no_mesh_error :: event where
  "no_mesh_error = Print [Txt ''[Decimate] ERROR: No mesh objects found!'']"

definition found_msg :: "nat \<Rightarrow> nat \<Rightarrow> event" where
  "found_msg k tot =
     Print [Txt ''[Decimate] Found '', Num k, Txt '' mesh(es), '', NumSep tot,
            Txt '' vertices total'']"

definition processing_msg :: "string \<Rightarrow> nat \<Rightarrow> event" where
  "processing_msg name n =
     Print [Txt ''[Decimate] Processing: '', Txt name, Txt '' ('', NumSep n, Txt '' verts)'']"

definition after_msg :: "nat \<Rightarrow> event" where
  "after_msg n = Print [Txt ''[Decimate] After: '', NumSep n, Txt '' verts'']"

definition total_msg :: "nat \<Rightarrow> nat \<Rightarrow> real \<Rightarrow> event" where
  "total_msg before after reduction =
     Print [Txt ''[Decimate] Total: '', NumSep before, Txt ('' '' @ arrow @ '' ''),
            NumSep after, Txt '' ('', Flt1 reduction, Txt ''% reduction)'']"

definition exporting_msg :: "string \<Rightarrow> event" where
  "exporting_msg script_file =
     Print [Txt ''[Decimate] Exporting to '', Txt (output_file script_file), Txt ''...'']"

definition done_msg :: event where
  "done_msg = Print [Txt ''[Decimate] DONE!'']"

definition size_msg :: "nat \<Rightarrow> event" where
  "size_msg sz =
     Print [Txt ''[Decimate] Output file size: '', Flt2 (real sz / (1024 * 1024)), Txt '' MB'']"

definition not_created_error :: event where
  "not_created_error = Print [Txt ''[Decimate] ERROR: Output file was not created!'']"

definition export_call :: "string \<Rightarrow> call" where
  "export_call script_file = ExportGltf (output_file script_file) ''GLB'' True True"

text \<open>The effects of a run up to the point where the import has returned.\<close>

definition prelude :: "string \<Rightarrow> event list" where
  "prelude script_file =
     [Print [Txt ''[Decimate] Input: '', Txt (input_file script_file)],
      Print [Txt ''[Decimate] Output: '', Txt (output_file script_file)],
      Print [Txt ''[Decimate] Target ratio: '', Flt (TARGET_RATIO * 100), Txt ''%'']]"

definition imported :: "string \<Rightarrow> event list" where
  "imported script_file =
     prelude script_file @
     [Call (ReadFactorySettings True) Returned, importing_msg,
      Call (ImportGltf (input_file script_file)) Returned]"

text \<open>
  Checkpoints of a run. \<open>after_import\<close> is the host's state when the scene reset and
  the import have both returned; \<open>after_decimation\<close> the state when, in addition, the
  scene has a mesh and the decimation loop has completed; \<open>after_export\<close> the state
  when further the division of line 66 has succeeded, the selection loop has completed
  and the export has returned. Each is \<open>None\<close> when the run does not get that far.
\<close>

definition after_import :: "'h host \<Rightarrow> string \<Rightarrow> 'h \<Rightarrow> 'h option" where
  "after_import env script_file h0 =
     (case read_factory_settings env True h0 of
        (Some e, h1) \<Rightarrow> None
      | (None, h1) \<Rightarrow>
          (case import_scene_gltf env (input_file script_file) h1 of
             (Some e, h2) \<Rightarrow> None
           | (None, h2) \<Rightarrow> Some h2))"

definition after_decimation :: "'h host \<Rightarrow> string \<Rightarrow> 'h \<Rightarrow> 'h option" where
  "after_decimation env script_file h0 =
     (case after_import env script_file h0 of
        None \<Rightarrow> None
      | Some h2 \<Rightarrow>
          if mesh_objects env h2 = [] then None
          else (case for_each (mesh_objects env h2) (decimate_mesh env) h2 of
                  (Done u, es, h3) \<Rightarrow> Some h3
                | (Exit n, es, h3) \<Rightarrow> None
                | (Raise e, es, h3) \<Rightarrow> None))"


text \<open>
  The effects of a run up to the report of line 67, and up to the line printed after
  the export has returned; \<open>h2\<close> and \<open>h3\<close> are the host's states after the import
  and after the decimation loop, \<open>es3\<close> and \<open>es4\<close> the effects of the decimation
  loop and of the selection loop.
\<close>

definition decimated :: "'h host \<Rightarrow> string \<Rightarrow> 'h \<Rightarrow> 'h \<Rightarrow> event list \<Rightarrow> event list" where
  "decimated env script_file h2 h3 es3 =
     (let ms = mesh_objects env h2; b = total_verts env ms h2; a = total_verts env ms h3
      in imported script_file @ found_msg (length ms) b # es3 @
         [total_msg b a ((1 - real a / real b) * 100)])"

definition exported :: "'h host \<Rightarrow> string \<Rightarrow> 'h \<Rightarrow> 'h \<Rightarrow> event list \<Rightarrow> event list \<Rightarrow> event list" where
  "exported env script_file h2 h3 es3 es4 =
     decimated env script_file h2 h3 es3 @ es4 @
     [exporting_msg script_file, Call (export_call script_file) Returned, done_msg]"

subsection \<open>Properties of pieces of script\<close>

text \<open>Every effect of the piece satisfies \<open>P\<close>, from whatever state it starts.\<close>

definition emits :: "(event \<Rightarrow> bool) \<Rightarrow> ('h, 'a) script \<Rightarrow> bool" where
  "emits P m \<longleftrightarrow> (\<forall>h. \<forall>ev \<in> set (trace (m h)). P ev)"

text \<open>The piece preserves the property \<open>I\<close> of the host's state, however it ends.\<close>

definition keeps :: "('h \<Rightarrow> bool) \<Rightarrow> ('h, 'a) script \<Rightarrow> bool" where
  "keeps I m \<longleftrightarrow> (\<forall>h. I h \<longrightarrow> I (final (m h)))"

text \<open>The errors raised by the host calls of a trace, in order.\<close>

fun raised_errors :: "event list \<Rightarrow> string list" where
  "raised_errors [] = []"
| "raised_errors (Call c (Raised e) # es) = e # raised_errors es"
| "raised_errors (ev # es) = raised_errors es"

text \<open>
  A run propagates host errors: a host call that raises is the last effect of the run
  and its error is the run's outcome, and a run that ends with a host error ends at the
  call that raised it.
\<close>

definition propagates :: "'a result \<times> event list \<times> 'h \<Rightarrow> bool" where
  "propagates run \<longleftrightarrow>
     raised_errors (trace run) =
       (case outcome run of Raise (HostError e) \<Rightarrow> [e] | Raise ZeroDivisionError \<Rightarrow> []
        | Done a \<Rightarrow> [] | Exit n \<Rightarrow> []) \<and>
     (case outcome run of
        Raise (HostError e) \<Rightarrow> trace run \<noteq> [] \<and> (\<exists>c. last (trace run) = Call c (Raised e))
      | Raise ZeroDivisionError \<Rightarrow> True | Done a \<Rightarrow> True | Exit n \<Rightarrow> True)"

text \<open>
  The calls of the decimation loop that concern a modifier: the activation of the
  object (a modifier is applied to the active object), and the calls that attach,
  configure and apply the modifier.
\<close>

fun decimation_call :: "call \<Rightarrow> bool" where
  "decimation_call (SetActive obj) = True"
| "decimation_call (ModifiersNew obj name type) = True"
| "decimation_call (SetDecimateType m v) = True"
| "decimation_call (SetRatio m v) = True"
| "decimation_call (SetUseCollapseTriangulate m v) = True"
| "decimation_call (ModifierApply name) = True"
| "decimation_call c = False"



fun is_call :: "event \<Rightarrow> bool" where
  "is_call (Call c r) = True"
| "is_call (Print ps) = False"

fun is_export :: "event \<Rightarrow> bool" where
  "is_export (Call (ExportGltf p f us ea) r) = True"
| "is_export ev = False"

text \<open>The effects a pass of the decimation loop or of the selection loop can have.\<close>

fun loop_call :: "call \<Rightarrow> bool" where
  "loop_call (SelectSet obj b) = True"
| "loop_call c = decimation_call c"

definition loop_event :: "event \<Rightarrow> bool" where
  "loop_event ev \<longleftrightarrow>
     (\<exists>name n. ev = processing_msg name n) \<or> (\<exists>n. ev = after_msg n) \<or>
     (\<exists>c r. ev = Call c r \<and> loop_call c)"

text \<open>
  A list of effects that consists of host calls, possibly followed by the line
  \<^verbatim>\<open>After: n' verts\<close> with \<open>n'\<close> at most \<open>N\<close> and one more call.
\<close>

definition calls_then_after :: "nat \<Rightarrow> event list \<Rightarrow> bool" where
  "calls_then_after N es \<longleftrightarrow>
     list_all is_call es \<or>
     (\<exists>calls n' c. es = calls @ [after_msg n', c] \<and> list_all is_call calls \<and> is_call c \<and>
        n' \<le> N)"

text \<open>
  Every line \<^verbatim>\<open>After: n' verts\<close> of the trace comes after a line
  \<^verbatim>\<open>Processing: name (n verts)\<close> with \<open>n' \<le> n\<close>, with only host calls in between.
\<close>

definition logs_reduce :: "event list \<Rightarrow> bool" where
  "logs_reduce es \<longleftrightarrow>
     (\<forall>pre n' post. es = pre @ after_msg n' # post \<longrightarrow>
        (\<exists>before name n calls. pre = before @ processing_msg name n # calls \<and>
           (\<forall>ev \<in> set calls. is_call ev) \<and> n' \<le> n))"

subsection \<open>What is assumed of the host where a claim depends on it\<close>

text \<open>
  Modelled from the spec: the host application's decimation operator and its mesh
  bookkeeping, which are not part of the repository. The spec's glossary describes
  decimation as an operation that reduces the vertex count, and the target ratio as
  the fraction of the original vertex count retained. Accordingly a modifier
  application that returns leaves no object with more vertices than it had, and the
  calls that only select or activate an object, or attach and configure a modifier,
  leave every vertex count as it was.
\<close>

definition decimation_reduces :: "'h host \<Rightarrow> bool" where
  "decimation_reduces env \<longleftrightarrow>
     (\<forall>name h h' obj. modifier_apply env name h = (None, h') \<longrightarrow>
        num_vertices env h' obj \<le> num_vertices env h obj) \<and>
     (\<forall>x h h' obj. set_active env x h = (None, h') \<longrightarrow>
        num_vertices env h' obj = num_vertices env h obj) \<and>
     (\<forall>x b h h' obj. select_set env x b h = (None, h') \<longrightarrow>
        num_vertices env h' obj = num_vertices env h obj) \<and>
     (\<forall>x name type h m h' obj. modifiers_new env x name type h = (Inr m, h') \<longrightarrow>
        num_vertices env h' obj = num_vertices env h obj) \<and>
     (\<forall>m v h h' obj. set_decimate_type env m v h = (None, h') \<longrightarrow>
        num_vertices env h' obj = num_vertices env h obj) \<and>
     (\<forall>m v h h' obj. set_ratio env m v h = (None, h') \<longrightarrow>
        num_vertices env h' obj = num_vertices env h obj) \<and>
     (\<forall>m v h h' obj. set_use_collapse_triangulate env m v h = (None, h') \<longrightarrow>
        num_vertices env h' obj = num_vertices env h obj)"

text \<open>
  Modelled from the spec: the host application's access to files, which is not part of
  the repository. The spec has the import read the input file and the export write
  the output path, and names no other file operation. \<open>contents h p\<close> stands for
  whatever can be observed of the file at path \<open>p\<close> in state \<open>h\<close>; no host call
  changes it, whether it returns or raises, except the export, which changes it at
  most at the path it is given.
\<close>

definition writes_only_on_export :: "'h host \<Rightarrow> ('h \<Rightarrow> string \<Rightarrow> 'c) \<Rightarrow> bool" where
  "writes_only_on_export env contents \<longleftrightarrow>
     (\<forall>b h. contents (snd (read_factory_settings env b h)) = contents h) \<and>
     (\<forall>p h. contents (snd (import_scene_gltf env p h)) = contents h) \<and>
     (\<forall>x h. contents (snd (set_active env x h)) = contents h) \<and>
     (\<forall>x b h. contents (snd (select_set env x b h)) = contents h) \<and>
     (\<forall>x name type h. contents (snd (modifiers_new env x name type h)) = contents h) \<and>
     (\<forall>m v h. contents (snd (set_decimate_type env m v h)) = contents h) \<and>
     (\<forall>m v h. contents (snd (set_ratio env m v h)) = contents h) \<and>
     (\<forall>m v h. contents (snd (set_use_collapse_triangulate env m v h)) = contents h) \<and>
     (\<forall>name h. contents (snd (modifier_apply env name h)) = contents h) \<and>
     (\<forall>p f us ea h q. q \<noteq> p \<longrightarrow>
        contents (snd (export_scene_gltf env p f us ea h)) q = contents h q)"

text \<open>
  An import call is given the input path; an export call is given the output path,
  the binary format, the selection and the permanent application of modifiers.
\<close>

definition import_export_paths :: "string \<Rightarrow> event \<Rightarrow> bool" where
  "import_export_paths sf ev \<longleftrightarrow>
     (\<forall>p r. ev = Call (ImportGltf p) r \<longrightarrow> p = input_file sf) \<and>
     (\<forall>p f us ea r. ev = Call (ExportGltf p f us ea) r \<longrightarrow>
        p = output_file sf \<and> f = ''GLB'' \<and> us \<and> ea)"

subsection \<open>A concrete host for the examples\<close>

text \<open>
  A small host on which the theorems below are instantiated: a scene is a list of
  object handles with a vertex count each, the import loads a fixed list of objects,
  applying a modifier leaves the active object one fiftieth of its vertices, and the
  export creates the file it is asked for. The parameter \<open>fault\<close> names one operation
  that misbehaves: \<open>''import''\<close> and \<open>''modifier_apply''\<close> make that call raise,
  \<open>''no output''\<close> makes the export return without producing a file.
\<close>

record demo_state =
  ds_scene :: "obj list"
  ds_verts :: "obj \<Rightarrow> nat"
  ds_active :: "obj option"
  ds_files :: "(string \<times> nat) list"

definition demo_host :: "obj list \<Rightarrow> (obj \<Rightarrow> string) \<Rightarrow> (obj \<Rightarrow> nat) \<Rightarrow> string \<Rightarrow> demo_state host" where
  "demo_host objs types verts fault =
     \<lparr> read_factory_settings = (\<lambda>use_empty h. (None, h\<lparr>ds_scene := [], ds_active := None\<rparr>)),
       import_scene_gltf = (\<lambda>path h.
         if fault = ''import'' then (Some ''RuntimeError'', h)
         else (None, h\<lparr>ds_scene := objs, ds_verts := verts\<rparr>)),
       scene_objects = ds_scene,
       obj_type = (\<lambda>h. types),
       obj_name = (\<lambda>h obj. ''Shell''),
       num_vertices = ds_verts,
       set_active = (\<lambda>obj h. (None, h\<lparr>ds_active := Some obj\<rparr>)),
       select_set = (\<lambda>obj b h. (None, h)),
       modifiers_new = (\<lambda>obj name type h. (Inr obj, h)),
       set_decimate_type = (\<lambda>m v h. (None, h)),
       set_ratio = (\<lambda>m r h. (None, h)),
       set_use_collapse_triangulate = (\<lambda>m b h. (None, h)),
       modifier_apply = (\<lambda>name h.
         if fault = ''modifier_apply'' then (Some ''RuntimeError'', h)
         else (None, case ds_active h of
                       None \<Rightarrow> h
                     | Some a \<Rightarrow> h\<lparr>ds_verts := (ds_verts h)(a := ds_verts h a div 50)\<rparr>)),
       export_scene_gltf = (\<lambda>path fmt sel app h.
         if fault = ''no output'' then (None, h)
         else (None, h\<lparr>ds_files := (path, 2097152) # ds_files h\<rparr>)),
       path_exists = (\<lambda>h p. map_of (ds_files h) p \<noteq> None),
       path_getsize = (\<lambda>h p. case map_of (ds_files h) p of
                                 None \<Rightarrow> Inl ''FileNotFoundError''
                               | Some n \<Rightarrow> Inr n) \<rparr>"

definition demo_types :: "obj \<Rightarrow> string" where
  "demo_types obj = (if obj = 2 then ''CAMERA'' else ''MESH'')"

definition demo_verts :: "obj \<Rightarrow> nat" where
  "demo_verts obj = (if obj = 0 then 474000 else if obj = 1 then 1000 else 0)"

definition demo_start :: demo_state where
  "demo_start = \<lparr> ds_scene = [7], ds_verts = (\<lambda>_. 8), ds_active = None, ds_files = [] \<rparr>"

definition demo_script :: string where
  "demo_script = ''/home/u/sphere/scripts/decimate_beetle.py''"



text \<open>
  The effects of the run on the concrete host with the single mesh object 0, before and
  after the line printed at the end of the pass of the decimation loop; and a start
  state in which the input file exists.
\<close>

definition demo_one_before :: "event list" where
  "demo_one_before =
     imported demo_script @
     [found_msg 1 474000,
      processing_msg ''Shell'' 474000,
      Call (SetActive 0) Returned, Call (SelectSet 0 True) Returned,
      Call (ModifiersNew 0 ''Decimate'' ''DECIMATE'') (ReturnedModifier 0),
      Call (SetDecimateType 0 ''COLLAPSE'') Returned,
      Call (SetRatio 0 TARGET_RATIO) Returned,
      Call (SetUseCollapseTriangulate 0 True) Returned,
      Call (ModifierApply ''Decimate'') Returned]"

definition demo_one_after :: "event list" where
  "demo_one_after =
     [Call (SelectSet 0 False) Returned,
      total_msg 474000 9480 98,
      Call (SelectSet 0 True) Returned,
      exporting_msg demo_script,
      Call (export_call demo_script) Returned,
      done_msg, Call (GetSize (output_file demo_script)) (ReturnedSize 2097152),
      size_msg 2097152]"

definition demo_with_input :: demo_state where
  "demo_with_input = demo_start\<lparr>ds_files := [(input_file demo_script, 41943040)]\<rparr>"

section \<open>Runs of the script\<close>

subsection \<open>The runs of \<open>main\<close>, path by path\<close>

lemmas step_defs = bind_def print_def get_def sys_exit_def invoke_def invoke_new_def
  invoke_getsize_def true_div_def ret_def
lemmas msg_defs = importing_msg_def no_mesh_error_def found_msg_def processing_msg_def
  after_msg_def total_msg_def exporting_msg_def done_msg_def size_msg_def not_created_error_def
  export_call_def prelude_def imported_def

lemma main_paths:
  "main env sf = (let input_file = input_file sf; output_file = output_file sf in
      bind (print [Txt ''[Decimate] Input: '', Txt input_file]) (\<lambda>_.
      bind (print [Txt ''[Decimate] Output: '', Txt output_file]) (\<lambda>_.
      bind (print [Txt ''[Decimate] Target ratio: '', Flt (TARGET_RATIO * 100), Txt ''%'']) (\<lambda>_.
      bind (invoke (ReadFactorySettings True) (read_factory_settings env True)) (\<lambda>_.
      bind (print [Txt ''[Decimate] Importing GLB...'']) (\<lambda>_.
      bind (invoke (ImportGltf input_file) (import_scene_gltf env input_file)) (\<lambda>_.
      bind (get (mesh_objects env)) (\<lambda>mesh_objects.
      if mesh_objects = [] then
        bind (print [Txt ''[Decimate] ERROR: No mesh objects found!'']) (\<lambda>_. sys_exit 1)
      else
      bind (get (total_verts env mesh_objects)) (\<lambda>total_verts_before.
      bind (print [Txt ''[Decimate] Found '', Num (length mesh_objects), Txt '' mesh(es), '',
                   NumSep total_verts_before, Txt '' vertices total'']) (\<lambda>_.
      bind (for_each mesh_objects (decimate_mesh env)) (\<lambda>_.
      bind (get (total_verts env mesh_objects)) (\<lambda>total_verts_after.
      bind (true_div total_verts_after total_verts_before) (\<lambda>quotient.
      let reduction = (1 - quotient) * 100 in
      bind (print [Txt ''[Decimate] Total: '', NumSep total_verts_before, Txt ('' '' @ arrow @ '' ''),
                   NumSep total_verts_after, Txt '' ('', Flt1 reduction, Txt ''% reduction)'']) (\<lambda>_.
      bind (for_each mesh_objects (select_mesh env)) (\<lambda>_.
      bind (print [Txt ''[Decimate] Exporting to '', Txt output_file, Txt ''...'']) (\<lambda>_.
      bind (invoke (ExportGltf output_file ''GLB'' True True)
              (export_scene_gltf env output_file ''GLB'' True True)) (\<lambda>_.
      bind (print [Txt ''[Decimate] DONE!'']) (\<lambda>_.
      bind (get (\<lambda>h. path_exists env h output_file)) (\<lambda>created.
      if created then
        bind (invoke_getsize (GetSize output_file) (\<lambda>h. path_getsize env h output_file)) (\<lambda>size.
        let size_mb = real size / (1024 * 1024) in
        print [Txt ''[Decimate] Output file size: '', Flt2 size_mb, Txt '' MB''])
      else
        bind (print [Txt ''[Decimate] ERROR: Output file was not created!'']) (\<lambda>_. sys_exit 1)
      )))))))))))))))))))"
  by (simp add: main_def input_file_def output_file_def Let_def)

lemma main_reset_raises:
  assumes "read_factory_settings env True h0 = (Some e, h1)"
  shows "main env sf h0 = (Raise (HostError e), prelude sf @ [Call (ReadFactorySettings True) (Raised e)], h1)"
  using assms by (simp add: main_paths Let_def step_defs msg_defs)

lemma main_import_raises:
  assumes "read_factory_settings env True h0 = (None, h1)"
    and "import_scene_gltf env (input_file sf) h1 = (Some e, h2)"
  shows "main env sf h0 = (Raise (HostError e),
           prelude sf @ [Call (ReadFactorySettings True) Returned, importing_msg,
                         Call (ImportGltf (input_file sf)) (Raised e)], h2)"
  using assms by (simp add: main_paths Let_def step_defs msg_defs)

lemma after_import_iff:
  "after_import env sf h0 = Some h2 \<longleftrightarrow>
     (\<exists>h1. read_factory_settings env True h0 = (None, h1) \<and>
           import_scene_gltf env (input_file sf) h1 = (None, h2))"
  by (auto simp: after_import_def split: prod.splits option.splits)

lemma main_no_mesh:
  assumes "after_import env sf h0 = Some h2" and "mesh_objects env h2 = []"
  shows "main env sf h0 = (Exit 1, imported sf @ [no_mesh_error], h2)"
  using assms by (auto simp: after_import_iff main_paths Let_def step_defs msg_defs)

lemma main_decimation_stops:
  assumes "after_import env sf h0 = Some h2" and "mesh_objects env h2 \<noteq> []"
    and "for_each (mesh_objects env h2) (decimate_mesh env) h2 = (r, es3, h3)"
    and "r \<noteq> Done ()"
  shows "main env sf h0 =
           (r, imported sf @ found_msg (length (mesh_objects env h2))
                 (total_verts env (mesh_objects env h2) h2) # es3, h3)"
  using assms by (cases r) (auto simp: after_import_iff main_paths Let_def step_defs msg_defs)

lemma main_zero_division:
  assumes "after_import env sf h0 = Some h2" and "mesh_objects env h2 \<noteq> []"
    and "for_each (mesh_objects env h2) (decimate_mesh env) h2 = (Done (), es3, h3)"
    and "total_verts env (mesh_objects env h2) h2 = 0"
  shows "main env sf h0 =
           (Raise ZeroDivisionError, imported sf @ found_msg (length (mesh_objects env h2))
                 (total_verts env (mesh_objects env h2) h2) # es3, h3)"
  using assms by (auto simp: after_import_iff main_paths Let_def step_defs msg_defs)


lemma after_decimation_iff:
  "after_decimation env sf h0 = Some h3 \<longleftrightarrow>
     (\<exists>h2 es3. after_import env sf h0 = Some h2 \<and> mesh_objects env h2 \<noteq> [] \<and>
        for_each (mesh_objects env h2) (decimate_mesh env) h2 = (Done (), es3, h3))"
  by (auto simp: after_decimation_def split: prod.splits option.splits result.splits)


lemma main_selection_stops:
  assumes "after_import env sf h0 = Some h2" and "mesh_objects env h2 \<noteq> []"
    and "for_each (mesh_objects env h2) (decimate_mesh env) h2 = (Done (), es3, h3)"
    and "total_verts env (mesh_objects env h2) h2 \<noteq> 0"
    and "for_each (mesh_objects env h2) (select_mesh env) h3 = (r, es4, h4)"
    and "r \<noteq> Done ()"
  shows "main env sf h0 = (r, decimated env sf h2 h3 es3 @ es4, h4)"
  using assms
  by (cases r) (auto simp: after_import_iff main_paths Let_def step_defs msg_defs decimated_def)

lemma main_export_raises:
  assumes "after_import env sf h0 = Some h2" and "mesh_objects env h2 \<noteq> []"
    and "for_each (mesh_objects env h2) (decimate_mesh env) h2 = (Done (), es3, h3)"
    and "total_verts env (mesh_objects env h2) h2 \<noteq> 0"
    and "for_each (mesh_objects env h2) (select_mesh env) h3 = (Done (), es4, h4)"
    and "export_scene_gltf env (output_file sf) ''GLB'' True True h4 = (Some e, h5)"
  shows "main env sf h0 =
           (Raise (HostError e),
            decimated env sf h2 h3 es3 @ es4 @ [exporting_msg sf, Call (export_call sf) (Raised e)], h5)"
  using assms
  by (auto simp: after_import_iff main_paths Let_def step_defs msg_defs decimated_def)

lemma main_output_missing:
  assumes "after_import env sf h0 = Some h2" and "mesh_objects env h2 \<noteq> []"
    and "for_each (mesh_objects env h2) (decimate_mesh env) h2 = (Done (), es3, h3)"
    and "total_verts env (mesh_objects env h2) h2 \<noteq> 0"
    and "for_each (mesh_objects env h2) (select_mesh env) h3 = (Done (), es4, h4)"
    and "export_scene_gltf env (output_file sf) ''GLB'' True True h4 = (None, h5)"
    and "\<not> path_exists env h5 (output_file sf)"
  shows "main env sf h0 = (Exit 1, exported env sf h2 h3 es3 es4 @ [not_created_error], h5)"
  using assms
  by (auto simp: after_import_iff main_paths Let_def step_defs msg_defs decimated_def exported_def)

lemma main_getsize_raises:
  assumes "after_import env sf h0 = Some h2" and "mesh_objects env h2 \<noteq> []"
    and "for_each (mesh_objects env h2) (decimate_mesh env) h2 = (Done (), es3, h3)"
    and "total_verts env (mesh_objects env h2) h2 \<noteq> 0"
    and "for_each (mesh_objects env h2) (select_mesh env) h3 = (Done (), es4, h4)"
    and "export_scene_gltf env (output_file sf) ''GLB'' True True h4 = (None, h5)"
    and "path_exists env h5 (output_file sf)"
    and "path_getsize env h5 (output_file sf) = Inl e"
  shows "main env sf h0 =
           (Raise (HostError e),
            exported env sf h2 h3 es3 es4 @ [Call (GetSize (output_file sf)) (Raised e)], h5)"
  using assms
  by (auto simp: after_import_iff main_paths Let_def step_defs msg_defs decimated_def exported_def)

lemma main_success:
  assumes "after_import env sf h0 = Some h2" and "mesh_objects env h2 \<noteq> []"
    and "for_each (mesh_objects env h2) (decimate_mesh env) h2 = (Done (), es3, h3)"
    and "total_verts env (mesh_objects env h2) h2 \<noteq> 0"
    and "for_each (mesh_objects env h2) (select_mesh env) h3 = (Done (), es4, h4)"
    and "export_scene_gltf env (output_file sf) ''GLB'' True True h4 = (None, h5)"
    and "path_exists env h5 (output_file sf)"
    and "path_getsize env h5 (output_file sf) = Inr n"
  shows "main env sf h0 =
           (Done (),
            exported env sf h2 h3 es3 es4 @
              [Call (GetSize (output_file sf)) (ReturnedSize n), size_msg n], h5)"
  using assms
  by (auto simp: after_import_iff main_paths Let_def step_defs msg_defs decimated_def exported_def)


lemma main_cases [case_names reset_raises import_raises no_mesh decimation_stops zero_division
    selection_stops export_raises output_missing getsize_raises success]:
  obtains
    e h1 where "read_factory_settings env True h0 = (Some e, h1)"
      and "main env sf h0 =
             (Raise (HostError e), prelude sf @ [Call (ReadFactorySettings True) (Raised e)], h1)"
  | e h1 h2 where "read_factory_settings env True h0 = (None, h1)"
      and "import_scene_gltf env (input_file sf) h1 = (Some e, h2)"
      and "main env sf h0 =
             (Raise (HostError e),
              prelude sf @ [Call (ReadFactorySettings True) Returned, importing_msg,
                            Call (ImportGltf (input_file sf)) (Raised e)], h2)"
  | h2 where "after_import env sf h0 = Some h2" and "mesh_objects env h2 = []"
      and "main env sf h0 = (Exit 1, imported sf @ [no_mesh_error], h2)"
  | h2 r es3 h3 where "after_import env sf h0 = Some h2" and "mesh_objects env h2 \<noteq> []"
      and "for_each (mesh_objects env h2) (decimate_mesh env) h2 = (r, es3, h3)"
      and "r \<noteq> Done ()"
      and "main env sf h0 =
             (r, imported sf @ found_msg (length (mesh_objects env h2))
                   (total_verts env (mesh_objects env h2) h2) # es3, h3)"
  | h2 es3 h3 where "after_import env sf h0 = Some h2" and "mesh_objects env h2 \<noteq> []"
      and "for_each (mesh_objects env h2) (decimate_mesh env) h2 = (Done (), es3, h3)"
      and "total_verts env (mesh_objects env h2) h2 = 0"
      and "main env sf h0 =
             (Raise ZeroDivisionError, imported sf @ found_msg (length (mesh_objects env h2))
                   (total_verts env (mesh_objects env h2) h2) # es3, h3)"
  | h2 es3 h3 r es4 h4 where "after_import env sf h0 = Some h2" and "mesh_objects env h2 \<noteq> []"
      and "for_each (mesh_objects env h2) (decimate_mesh env) h2 = (Done (), es3, h3)"
      and "total_verts env (mesh_objects env h2) h2 \<noteq> 0"
      and "for_each (mesh_objects env h2) (select_mesh env) h3 = (r, es4, h4)"
      and "r \<noteq> Done ()"
      and "main env sf h0 = (r, decimated env sf h2 h3 es3 @ es4, h4)"
  | h2 es3 h3 es4 h4 e h5 where "after_import env sf h0 = Some h2" and "mesh_objects env h2 \<noteq> []"
      and "for_each (mesh_objects env h2) (decimate_mesh env) h2 = (Done (), es3, h3)"
      and "total_verts env (mesh_objects env h2) h2 \<noteq> 0"
      and "for_each (mesh_objects env h2) (select_mesh env) h3 = (Done (), es4, h4)"
      and "export_scene_gltf env (output_file sf) ''GLB'' True True h4 = (Some e, h5)"
      and "main env sf h0 =
             (Raise (HostError e),
              decimated env sf h2 h3 es3 @ es4 @
                [exporting_msg sf, Call (export_call sf) (Raised e)], h5)"
  | h2 es3 h3 es4 h4 h5 where "after_import env sf h0 = Some h2" and "mesh_objects env h2 \<noteq> []"
      and "for_each (mesh_objects env h2) (decimate_mesh env) h2 = (Done (), es3, h3)"
      and "total_verts env (mesh_objects env h2) h2 \<noteq> 0"
      and "for_each (mesh_objects env h2) (select_mesh env) h3 = (Done (), es4, h4)"
      and "export_scene_gltf env (output_file sf) ''GLB'' True True h4 = (None, h5)"
      and "\<not> path_exists env h5 (output_file sf)"
      and "main env sf h0 = (Exit 1, exported env sf h2 h3 es3 es4 @ [not_created_error], h5)"
  | h2 es3 h3 es4 h4 h5 e where "after_import env sf h0 = Some h2" and "mesh_objects env h2 \<noteq> []"
      and "for_each (mesh_objects env h2) (decimate_mesh env) h2 = (Done (), es3, h3)"
      and "total_verts env (mesh_objects env h2) h2 \<noteq> 0"
      and "for_each (mesh_objects env h2) (select_mesh env) h3 = (Done (), es4, h4)"
      and "export_scene_gltf env (output_file sf) ''GLB'' True True h4 = (None, h5)"
      and "path_exists env h5 (output_file sf)"
      and "path_getsize env h5 (output_file sf) = Inl e"
      and "main env sf h0 =
             (Raise (HostError e),
              exported env sf h2 h3 es3 es4 @ [Call (GetSize (output_file sf)) (Raised e)], h5)"
  | h2 es3 h3 es4 h4 h5 n where "after_import env sf h0 = Some h2" and "mesh_objects env h2 \<noteq> []"
      and "for_each (mesh_objects env h2) (decimate_mesh env) h2 = (Done (), es3, h3)"
      and "total_verts env (mesh_objects env h2) h2 \<noteq> 0"
      and "for_each (mesh_objects env h2) (select_mesh env) h3 = (Done (), es4, h4)"
      and "export_scene_gltf env (output_file sf) ''GLB'' True True h4 = (None, h5)"
      and "path_exists env h5 (output_file sf)"
      and "path_getsize env h5 (output_file sf) = Inr n"
      and "main env sf h0 =
             (Done (),
              exported env sf h2 h3 es3 es4 @
                [Call (GetSize (output_file sf)) (ReturnedSize n), size_msg n], h5)"
proof -
  obtain x1 h1 where r1: "read_factory_settings env True h0 = (x1, h1)"
    by (cases "read_factory_settings env True h0")
  show thesis
  proof (cases x1)
    case (Some e)
    with r1 have f: "read_factory_settings env True h0 = (Some e, h1)" by simp
    show thesis by (rule that(1) [OF f main_reset_raises [OF f]])
  next
    case None
    with r1 have n1: "read_factory_settings env True h0 = (None, h1)" by simp
    obtain x2 h2 where r2: "import_scene_gltf env (input_file sf) h1 = (x2, h2)"
      by (cases "import_scene_gltf env (input_file sf) h1")
    show thesis
    proof (cases x2)
      case (Some e)
      with r2 have f: "import_scene_gltf env (input_file sf) h1 = (Some e, h2)" by simp
      show thesis by (rule that(2) [OF n1 f main_import_raises [OF n1 f]])
    next
      case None
      with n1 r2 have ai: "after_import env sf h0 = Some h2"
        by (auto simp: after_import_iff)
      show thesis
      proof (cases "mesh_objects env h2 = []")
        case True
        show thesis by (rule that(3) [OF ai True main_no_mesh [OF ai True]])
      next
        case ms: False
        obtain r3 es3 h3 where
          d: "for_each (mesh_objects env h2) (decimate_mesh env) h2 = (r3, es3, h3)"
          by (cases "for_each (mesh_objects env h2) (decimate_mesh env) h2")
        show thesis
        proof (cases "r3 = Done ()")
          case False
          show thesis by (rule that(4) [OF ai ms d False main_decimation_stops [OF ai ms d False]])
        next
          case True
          with d have d': "for_each (mesh_objects env h2) (decimate_mesh env) h2 = (Done (), es3, h3)"
            by simp
          show thesis
          proof (cases "total_verts env (mesh_objects env h2) h2 = 0")
            case True
            show thesis by (rule that(5) [OF ai ms d' True main_zero_division [OF ai ms d' True]])
          next
            case tv: False
            obtain r4 es4 h4 where
              s: "for_each (mesh_objects env h2) (select_mesh env) h3 = (r4, es4, h4)"
              by (cases "for_each (mesh_objects env h2) (select_mesh env) h3")
            show thesis
            proof (cases "r4 = Done ()")
              case False
              show thesis
                by (rule that(6) [OF ai ms d' tv s False main_selection_stops [OF ai ms d' tv s False]])
            next
              case True
              with s have s': "for_each (mesh_objects env h2) (select_mesh env) h3 = (Done (), es4, h4)"
                by simp
              obtain x5 h5 where
                x: "export_scene_gltf env (output_file sf) ''GLB'' True True h4 = (x5, h5)"
                by (cases "export_scene_gltf env (output_file sf) ''GLB'' True True h4")
              show thesis
              proof (cases x5)
                case (Some e)
                with x have f: "export_scene_gltf env (output_file sf) ''GLB'' True True h4 = (Some e, h5)"
                  by simp
                show thesis
                  by (rule that(7) [OF ai ms d' tv s' f main_export_raises [OF ai ms d' tv s' f]])
              next
                case None
                with x have x': "export_scene_gltf env (output_file sf) ''GLB'' True True h4 = (None, h5)"
                  by simp
                show thesis
                proof (cases "path_exists env h5 (output_file sf)")
                  case False
                  show thesis
                    by (rule that(8) [OF ai ms d' tv s' x' False
                          main_output_missing [OF ai ms d' tv s' x' False]])
                next
                  case True
                  show thesis
                  proof (cases "path_getsize env h5 (output_file sf)")
                    case (Inl e)
                    show thesis
                      by (rule that(9) [OF ai ms d' tv s' x' True Inl
                            main_getsize_raises [OF ai ms d' tv s' x' True Inl]])
                  next
                    case (Inr n)
                    show thesis
                      by (rule that(10) [OF ai ms d' tv s' x' True Inr
                            main_success [OF ai ms d' tv s' x' True Inr]])
                  qed
                qed
              qed
            qed
          qed
        qed
      qed
    qed
  qed
qed


subsection \<open>Rules for the effects of a piece of script\<close>

lemma outcome_bind:
  "outcome (bind m f h) =
     (case outcome (m h) of Done a \<Rightarrow> outcome (f a (final (m h)))
      | Exit n \<Rightarrow> Exit n | Raise e \<Rightarrow> Raise e)"
  by (simp add: bind_def outcome_def final_def split: prod.splits result.splits)

lemma trace_bind:
  "trace (bind m f h) =
     (case outcome (m h) of Done a \<Rightarrow> trace (m h) @ trace (f a (final (m h)))
      | Exit n \<Rightarrow> trace (m h) | Raise e \<Rightarrow> trace (m h))"
  by (simp add: bind_def outcome_def trace_def final_def split: prod.splits result.splits)

lemma final_bind:
  "final (bind m f h) =
     (case outcome (m h) of Done a \<Rightarrow> final (f a (final (m h)))
      | Exit n \<Rightarrow> final (m h) | Raise e \<Rightarrow> final (m h))"
  by (simp add: bind_def outcome_def final_def split: prod.splits result.splits)

lemma emits_bind: "emits P m \<Longrightarrow> (\<And>a. emits P (f a)) \<Longrightarrow> emits P (bind m f)"
  by (auto simp: emits_def trace_bind split: result.splits)

lemma emits_print: "P (Print ps) \<Longrightarrow> emits P (print ps)"
  by (simp add: emits_def print_def trace_def)

lemma emits_get: "emits P (get f)"
  by (simp add: emits_def get_def trace_def)

lemma emits_invoke: "(\<And>r. P (Call c r)) \<Longrightarrow> emits P (invoke c op)"
  by (auto simp: emits_def invoke_def trace_def split: prod.splits option.splits)

lemma emits_invoke_new: "(\<And>r. P (Call c r)) \<Longrightarrow> emits P (invoke_new c op)"
  by (auto simp: emits_def invoke_new_def trace_def split: prod.splits sum.splits)

lemma emits_for_each: "(\<And>x. emits P (body x)) \<Longrightarrow> emits P (for_each xs body)"
proof (induction xs)
  case Nil
  show ?case by (simp add: emits_def ret_def trace_def)
next
  case (Cons x xs)
  have "emits P (bind (body x) (\<lambda>_. for_each xs body))"
    by (rule emits_bind) (simp_all add: Cons)
  then show ?case by (simp add: emits_def)
qed

lemma emits_decimate_mesh: "emits loop_event (decimate_mesh env obj)"
  unfolding decimate_mesh_def
  by (intro emits_bind emits_get emits_print emits_invoke emits_invoke_new)
     (simp_all add: loop_event_def processing_msg_def after_msg_def)


lemma emits_if: "emits P m1 \<Longrightarrow> emits P m2 \<Longrightarrow> emits P (if c then m1 else m2)"
  by simp

lemma emits_sys_exit: "emits P (sys_exit n)"
  by (simp add: emits_def sys_exit_def trace_def)

lemma emits_true_div: "emits P (true_div a b)"
  by (simp add: emits_def true_div_def trace_def)

lemma emits_invoke_getsize: "(\<And>r. P (Call c r)) \<Longrightarrow> emits P (invoke_getsize c op)"
  by (auto simp: emits_def invoke_getsize_def trace_def split: sum.splits)

lemma emits_mono: "emits P m \<Longrightarrow> (\<And>ev. P ev \<Longrightarrow> Q ev) \<Longrightarrow> emits Q m"
  by (auto simp: emits_def)

lemma emits_select_mesh: "emits loop_event (select_mesh env obj)"
  unfolding select_mesh_def by (rule emits_invoke) (simp add: loop_event_def)

subsection \<open>Propagation of host errors\<close>

lemma raised_errors_append: "raised_errors (xs @ ys) = raised_errors xs @ raised_errors ys"
  by (induction xs rule: raised_errors.induct) simp_all

lemma singleton_split: "xs @ e # ys = [x] \<longleftrightarrow> xs = [] \<and> e = x \<and> ys = []"
  by (cases xs) auto

lemma raised_errors_mem: "Call c (Raised e) \<in> set es \<Longrightarrow> raised_errors es \<noteq> []"
  by (induction es rule: raised_errors.induct) auto

lemma propagates_bind:
  assumes "propagates (m h)" and "\<And>a h'. propagates (f a h')"
  shows "propagates (bind m f h)"
proof (cases "outcome (m h)")
  case (Done a)
  have p: "propagates (f a (final (m h)))" by (rule assms(2))
  from assms(1) Done have r: "raised_errors (trace (m h)) = []"
    by (simp add: propagates_def)
  show ?thesis
    using p r Done
    by (auto simp: propagates_def outcome_bind trace_bind raised_errors_append
          split: result.splits error.splits)
next
  case (Exit n)
  with assms(1) show ?thesis by (simp add: propagates_def outcome_bind trace_bind)
next
  case (Raise e)
  with assms(1) show ?thesis
    by (simp add: propagates_def outcome_bind trace_bind split: error.splits)
qed

lemma propagates_if:
  "propagates (m1 h) \<Longrightarrow> propagates (m2 h) \<Longrightarrow> propagates ((if c then m1 else m2) h)"
  by simp

lemma propagates_print: "propagates (print ps h)"
  by (simp add: propagates_def print_def outcome_def trace_def)

lemma propagates_get: "propagates (get f h)"
  by (simp add: propagates_def get_def outcome_def trace_def)

lemma propagates_ret: "propagates (ret a h)"
  by (simp add: propagates_def ret_def outcome_def trace_def)

lemma propagates_sys_exit: "propagates (sys_exit n h)"
  by (simp add: propagates_def sys_exit_def outcome_def trace_def)

lemma propagates_true_div: "propagates (true_div a b h)"
  by (simp add: propagates_def true_div_def outcome_def trace_def)

lemma propagates_invoke: "propagates (invoke c op h)"
  by (simp add: propagates_def invoke_def outcome_def trace_def split: prod.splits option.splits)

lemma propagates_invoke_new: "propagates (invoke_new c op h)"
  by (simp add: propagates_def invoke_new_def outcome_def trace_def split: prod.splits sum.splits)

lemma propagates_invoke_getsize: "propagates (invoke_getsize c op h)"
  by (simp add: propagates_def invoke_getsize_def outcome_def trace_def split: sum.splits)

lemma propagates_for_each:
  assumes "\<And>x h. propagates (body x h)"
  shows "propagates (for_each xs body h)"
proof (induction xs arbitrary: h)
  case Nil
  show ?case by (simp add: propagates_ret)
next
  case (Cons x xs)
  show ?case by (simp add: propagates_bind assms Cons)
qed

lemmas propagates_rules = propagates_bind propagates_print propagates_get propagates_ret
  propagates_sys_exit propagates_true_div propagates_invoke propagates_invoke_new
  propagates_invoke_getsize

lemma propagates_decimate_mesh: "propagates (decimate_mesh env obj h)"
  unfolding decimate_mesh_def by (intro propagates_rules)

lemma propagates_select_mesh: "propagates (select_mesh env obj h)"
  unfolding select_mesh_def by (rule propagates_invoke)

lemma propagates_main: "propagates (main env sf h0)"
  unfolding main_def Let_def
  by (intro propagates_rules propagates_if propagates_for_each propagates_decimate_mesh
        propagates_select_mesh)

subsection \<open>The loops never exit\<close>

lemma no_exit_bind:
  assumes "\<And>h. outcome (m h) \<noteq> Exit n" and "\<And>a h. outcome (f a h) \<noteq> Exit n"
  shows "outcome (bind m f h) \<noteq> Exit n"
  using assms by (auto simp: outcome_bind split: result.splits)

lemma no_exit_steps:
  "outcome (print ps h) \<noteq> Exit n" "outcome (get g h) \<noteq> Exit n" "outcome (ret a h) \<noteq> Exit n"
  "outcome (invoke c op h) \<noteq> Exit n" "outcome (invoke_new c op' h) \<noteq> Exit n"
  by (simp_all add: print_def get_def ret_def invoke_def invoke_new_def outcome_def
        split: prod.splits option.splits sum.splits)

lemma no_exit_for_each:
  assumes "\<And>x h. outcome (body x h) \<noteq> Exit n"
  shows "outcome (for_each xs body h) \<noteq> Exit n"
proof (induction xs arbitrary: h)
  case Nil
  show ?case by (simp add: no_exit_steps)
next
  case (Cons x xs)
  show ?case by (simp add: no_exit_bind assms Cons)
qed

lemma no_exit_decimate_mesh: "outcome (decimate_mesh env obj h) \<noteq> Exit n"
  unfolding decimate_mesh_def by (intro no_exit_bind no_exit_steps)

lemma no_exit_select_mesh: "outcome (select_mesh env obj h) \<noteq> Exit n"
  unfolding select_mesh_def by (rule no_exit_steps)

lemma decimation_loop_no_exit: "for_each xs (decimate_mesh env) h \<noteq> (Exit n, es, h')"
  using no_exit_for_each [of "decimate_mesh env" n xs h, OF no_exit_decimate_mesh]
  by (auto simp: outcome_def)

lemma selection_loop_no_exit: "for_each xs (select_mesh env) h \<noteq> (Exit n, es, h')"
  using no_exit_for_each [of "select_mesh env" n xs h, OF no_exit_select_mesh]
  by (auto simp: outcome_def)

subsection \<open>What the loops emit\<close>

lemma decimation_loop_events:
  assumes "for_each xs (decimate_mesh env) h = (r, es, h')" and "ev \<in> set es"
  shows "loop_event ev"
  using emits_for_each [of loop_event "decimate_mesh env" xs, OF emits_decimate_mesh] assms
  by (auto simp: emits_def trace_def dest!: spec [of _ h])

lemma selection_loop_events:
  assumes "for_each xs (select_mesh env) h = (r, es, h')" and "ev \<in> set es"
  shows "loop_event ev"
  using emits_for_each [of loop_event "select_mesh env" xs, OF emits_select_mesh] assms
  by (auto simp: emits_def trace_def dest!: spec [of _ h])

lemma total_msg_not_loop_event: "\<not> loop_event (total_msg b a red)"
  by (simp add: loop_event_def total_msg_def processing_msg_def after_msg_def)

lemma total_msg_inj: "total_msg b a red = total_msg b' a' red' \<longleftrightarrow> b = b' \<and> a = a' \<and> red = red'"
  by (auto simp: total_msg_def)

lemma total_msg_not_imported:
  "total_msg b a red \<notin> set (imported sf)" "total_msg b a red \<notin> set (prelude sf)"
  "total_msg b a red \<noteq> importing_msg"
  by (simp_all add: msg_defs)

lemma total_msg_other:
  "total_msg b a red \<noteq> found_msg k t" "total_msg b a red \<noteq> exporting_msg sf"
  "total_msg b a red \<noteq> done_msg" "total_msg b a red \<noteq> not_created_error"
  "total_msg b a red \<noteq> size_msg n" "total_msg b a red \<noteq> no_mesh_error"
  "total_msg b a red \<noteq> Call c r"
  by (simp_all add: msg_defs)

lemma total_msg_in_decimated:
  assumes "for_each (mesh_objects env h2) (decimate_mesh env) h2 = (r, es3, h3)"
  shows "total_msg b a red \<in> set (decimated env sf h2 h3 es3) \<longleftrightarrow>
           b = total_verts env (mesh_objects env h2) h2 \<and>
           a = total_verts env (mesh_objects env h2) h3 \<and>
           red = (1 - real a / real b) * 100"
  using decimation_loop_events [OF assms, of "total_msg b a red"]
  by (auto simp: decimated_def Let_def total_msg_not_imported total_msg_other total_msg_inj
        total_msg_not_loop_event)

subsection \<open>Paths\<close>

lemma dirname_child:
  assumes "d \<noteq> []" and "last d \<noteq> sep" and "sep \<notin> set name"
  shows "dirname (d @ sep # name) = d"
proof -
  from assms(3) have "dropWhile (\<lambda>c. c \<noteq> sep) (rev name @ sep # rev d) = sep # rev d"
    by (auto simp: dropWhile_append3)
  then have h: "rev (dropWhile (\<lambda>c. c \<noteq> sep) (rev (d @ sep # name))) = d @ [sep]"
    by simp
  from assms(1,2) have "d @ [sep] \<noteq> replicate (length (d @ [sep])) sep"
    by (metis append_butlast_last_id butlast_snoc in_set_conv_decomp in_set_replicate
          length_append_singleton replicate_Suc replicate_append_same)
  moreover from assms(1,2) have "rstrip_sep (d @ [sep]) = d"
    by (cases d rule: rev_cases) (simp_all add: rstrip_sep_def)
  ultimately show ?thesis
    unfolding dirname_def Let_def h by simp
qed

lemma project_root_of_layout:
  assumes "proj \<noteq> []" and "last proj \<noteq> sep"
  shows "dirname (dirname (proj @ ''/scripts/decimate_beetle.py'')) = proj"
proof -
  have "dirname ((proj @ ''/scripts'') @ sep # ''decimate_beetle.py'') = proj @ ''/scripts''"
    by (rule dirname_child) (simp_all add: sep_def)
  then have "dirname (proj @ ''/scripts/decimate_beetle.py'') = proj @ sep # ''scripts''"
    by (simp add: sep_def)
  moreover have "dirname (proj @ sep # ''scripts'') = proj"
    using assms by (intro dirname_child) (simp_all add: sep_def)
  ultimately show ?thesis by simp
qed

lemma input_output_distinct: "input_file sf \<noteq> output_file sf"
  by (simp add: input_file_def output_file_def join_def INPUT_PATH_def OUTPUT_PATH_def sep_def)

lemma loop_event_paths: "loop_event ev \<Longrightarrow> import_export_paths sf ev"
  by (auto simp: loop_event_def import_export_paths_def processing_msg_def after_msg_def)

lemma emits_main_paths: "emits (import_export_paths sf) (main env sf)"
  unfolding main_paths Let_def
  by (intro emits_bind emits_if emits_print emits_get emits_invoke emits_invoke_getsize
        emits_sys_exit emits_true_div emits_for_each
        emits_mono [OF emits_decimate_mesh loop_event_paths]
        emits_mono [OF emits_select_mesh loop_event_paths])
     (simp_all add: import_export_paths_def)

subsection \<open>The loops do not divide\<close>

lemma no_zdiv_bind:
  assumes "\<And>h. outcome (m h) \<noteq> Raise ZeroDivisionError"
    and "\<And>a h. outcome (f a h) \<noteq> Raise ZeroDivisionError"
  shows "outcome (bind m f h) \<noteq> Raise ZeroDivisionError"
  using assms by (auto simp: outcome_bind split: result.splits)

lemma no_zdiv_steps:
  "outcome (print ps h) \<noteq> Raise ZeroDivisionError" "outcome (get g h) \<noteq> Raise ZeroDivisionError"
  "outcome (ret a h) \<noteq> Raise ZeroDivisionError"
  "outcome (invoke c op h) \<noteq> Raise ZeroDivisionError"
  "outcome (invoke_new c op' h) \<noteq> Raise ZeroDivisionError"
  by (simp_all add: print_def get_def ret_def invoke_def invoke_new_def outcome_def
        split: prod.splits option.splits sum.splits)

lemma no_zdiv_for_each:
  assumes "\<And>x h. outcome (body x h) \<noteq> Raise ZeroDivisionError"
  shows "outcome (for_each xs body h) \<noteq> Raise ZeroDivisionError"
proof (induction xs arbitrary: h)
  case Nil
  show ?case by (simp add: no_zdiv_steps)
next
  case (Cons x xs)
  show ?case by (simp add: no_zdiv_bind assms Cons)
qed

lemma no_zdiv_decimate_mesh: "outcome (decimate_mesh env obj h) \<noteq> Raise ZeroDivisionError"
  unfolding decimate_mesh_def by (intro no_zdiv_bind no_zdiv_steps)

lemma no_zdiv_select_mesh: "outcome (select_mesh env obj h) \<noteq> Raise ZeroDivisionError"
  unfolding select_mesh_def by (rule no_zdiv_steps)

lemma decimation_loop_no_zdiv:
  "for_each xs (decimate_mesh env) h \<noteq> (Raise ZeroDivisionError, es, h')"
  using no_zdiv_for_each [of "decimate_mesh env" xs h, OF no_zdiv_decimate_mesh]
  by (auto simp: outcome_def)

lemma selection_loop_no_zdiv:
  "for_each xs (select_mesh env) h \<noteq> (Raise ZeroDivisionError, es, h')"
  using no_zdiv_for_each [of "select_mesh env" xs h, OF no_zdiv_select_mesh]
  by (auto simp: outcome_def)

subsection \<open>The loops, when they complete\<close>










lemma unique_split:
  assumes "A @ x # B = pre @ y # post" and "P y"
    and "\<forall>a \<in> set A. \<not> P a" and "\<forall>b \<in> set B. \<not> P b"
  shows "pre = A \<and> y = x \<and> post = B"
  using assms
  by (auto simp: append_eq_append_conv2 append_eq_Cons_conv Cons_eq_append_conv)






subsection \<open>The logged vertex counts\<close>

lemma logs_reduce_plain:
  assumes "\<And>n. after_msg n \<notin> set es"
  shows "logs_reduce es"
  unfolding logs_reduce_def
proof (intro allI impI)
  fix pre n' post
  assume "es = pre @ after_msg n' # post"
  then have "after_msg n' \<in> set es" by simp
  with assms show "\<exists>before name n calls. pre = before @ processing_msg name n # calls \<and>
           (\<forall>ev \<in> set calls. is_call ev) \<and> n' \<le> n"
    by blast
qed

lemma logs_reduce_append:
  assumes "logs_reduce a" and "logs_reduce b"
  shows "logs_reduce (a @ b)"
  unfolding logs_reduce_def
proof (intro allI impI)
  fix pre n' post
  assume e: "a @ b = pre @ after_msg n' # post"
  then consider us where "a = pre @ after_msg n' # us" | us where "pre = a @ us" "b = us @ after_msg n' # post"
    by (auto simp: append_eq_append_conv2 append_eq_Cons_conv Cons_eq_append_conv)
  then show "\<exists>before name n calls. pre = before @ processing_msg name n # calls \<and>
           (\<forall>ev \<in> set calls. is_call ev) \<and> n' \<le> n"
  proof cases
    case 1
    with assms(1) show ?thesis by (auto simp: logs_reduce_def)
  next
    case 2
    from assms(2) 2(2) obtain before name n calls where
      "us = before @ processing_msg name n # calls" "\<forall>ev \<in> set calls. is_call ev" "n' \<le> n"
      unfolding logs_reduce_def by blast
    with 2(1) have "pre = (a @ before) @ processing_msg name n # calls" by simp
    with \<open>\<forall>ev \<in> set calls. is_call ev\<close> \<open>n' \<le> n\<close> show ?thesis by blast
  qed
qed

lemma lr_bind:
  assumes "\<And>h. logs_reduce (trace (m h))" and "\<And>a h. logs_reduce (trace (f a h))"
  shows "logs_reduce (trace (bind m f h))"
  using assms by (auto simp: trace_bind logs_reduce_append split: result.splits)

lemma lr_print:
  assumes "\<And>n. Print ps \<noteq> after_msg n"
  shows "logs_reduce (trace (print ps h))"
proof (rule logs_reduce_plain)
  fix n
  from assms [of n] show "after_msg n \<notin> set (trace (print ps h))"
    by (auto simp: print_def trace_def)
qed

lemma lr_steps:
  "logs_reduce (trace (get g h))" "logs_reduce (trace (ret a h))"
  "logs_reduce (trace (sys_exit k h))" "logs_reduce (trace (true_div x y h))"
  "logs_reduce (trace (invoke c op h))" "logs_reduce (trace (invoke_getsize c op' h))"
  by (rule logs_reduce_plain;
      simp add: get_def ret_def sys_exit_def true_div_def invoke_def invoke_getsize_def trace_def
        after_msg_def split: prod.splits option.splits sum.splits)+

lemma lr_if:
  "logs_reduce (trace (m1 h)) \<Longrightarrow> logs_reduce (trace (m2 h)) \<Longrightarrow>
   logs_reduce (trace ((if c then m1 else m2) h))"
  by simp

lemma lr_for_each:
  assumes "\<And>x h. logs_reduce (trace (body x h))"
  shows "logs_reduce (trace (for_each xs body h))"
proof (induction xs arbitrary: h)
  case Nil
  show ?case by (simp add: lr_steps)
next
  case (Cons x xs)
  show ?case by (simp add: lr_bind assms Cons)
qed

lemma lr_select_mesh: "logs_reduce (trace (select_mesh env obj h))"
  unfolding select_mesh_def by (rule lr_steps)



lemma reduces_facts:
  assumes "decimation_reduces env"
  shows "modifier_apply env name h = (None, h') \<Longrightarrow> num_vertices env h' obj \<le> num_vertices env h obj"
    and "set_active env x h = (None, h') \<Longrightarrow> num_vertices env h' obj = num_vertices env h obj"
    and "select_set env x b h = (None, h') \<Longrightarrow> num_vertices env h' obj = num_vertices env h obj"
    and "modifiers_new env x name type h = (Inr m, h') \<Longrightarrow>
           num_vertices env h' obj = num_vertices env h obj"
    and "set_decimate_type env m v h = (None, h') \<Longrightarrow> num_vertices env h' obj = num_vertices env h obj"
    and "set_ratio env m w h = (None, h') \<Longrightarrow> num_vertices env h' obj = num_vertices env h obj"
    and "set_use_collapse_triangulate env m b h = (None, h') \<Longrightarrow>
           num_vertices env h' obj = num_vertices env h obj"
  using assms by (simp_all add: decimation_reduces_def)

lemma trace_bind_get: "trace (bind (get g) f h) = trace (f (g h) h)"
  by (simp add: bind_def get_def trace_def split: prod.splits)

lemma trace_bind_print: "trace (bind (print ps) f h) = Print ps # trace (f () h)"
  by (simp add: bind_def print_def trace_def split: prod.splits)

lemma cta_Cons: "is_call ev \<Longrightarrow> calls_then_after N es \<Longrightarrow> calls_then_after N (ev # es)"
  unfolding calls_then_after_def
proof (elim disjE exE conjE)
  assume "is_call ev" and "list_all is_call es"
  then show "list_all is_call (ev # es) \<or>
    (\<exists>calls n' c. ev # es = calls @ [after_msg n', c] \<and> list_all is_call calls \<and> is_call c \<and>
       n' \<le> N)"
    by simp
next
  fix calls n' c
  assume "is_call ev" and "es = calls @ [after_msg n', c]" and "list_all is_call calls"
    and "is_call c" and "n' \<le> N"
  then have "ev # es = (ev # calls) @ [after_msg n', c] \<and> list_all is_call (ev # calls) \<and>
      is_call c \<and> n' \<le> N"
    by simp
  then show "list_all is_call (ev # es) \<or>
    (\<exists>calls n' c. ev # es = calls @ [after_msg n', c] \<and> list_all is_call calls \<and> is_call c \<and>
       n' \<le> N)"
    by blast
qed

lemma cta_invoke_bind:
  assumes "\<And>h'. op h = (None, h') \<Longrightarrow> calls_then_after N (trace (f () h'))"
  shows "calls_then_after N (trace (bind (invoke c op) f h))"
proof (cases "op h")
  case (Pair x h')
  show ?thesis
  proof (cases x)
    case None
    with Pair assms [of h'] have "calls_then_after N (Call c Returned # trace (f () h'))"
      by (simp add: cta_Cons)
    with Pair None show ?thesis
      by (auto simp: bind_def invoke_def trace_def split: prod.splits)
  next
    case (Some e)
    with Pair show ?thesis
      by (simp add: bind_def invoke_def trace_def calls_then_after_def)
  qed
qed

lemma cta_invoke_new_bind:
  assumes "\<And>m h'. op h = (Inr m, h') \<Longrightarrow> calls_then_after N (trace (f m h'))"
  shows "calls_then_after N (trace (bind (invoke_new c op) f h))"
proof (cases "op h")
  case (Pair x h')
  show ?thesis
  proof (cases x)
    case (Inr m)
    with Pair assms [of m h'] have
      "calls_then_after N (Call c (ReturnedModifier m) # trace (f m h'))"
      by (simp add: cta_Cons)
    with Pair Inr show ?thesis
      by (auto simp: bind_def invoke_new_def trace_def split: prod.splits)
  next
    case (Inl e)
    with Pair show ?thesis
      by (simp add: bind_def invoke_new_def trace_def calls_then_after_def)
  qed
qed

lemma cta_final:
  assumes "g h \<le> N"
  shows "calls_then_after N
           (trace (bind (get g) (\<lambda>n'.
              bind (print [Txt ''[Decimate] After: '', NumSep n', Txt '' verts''])
                (\<lambda>_. invoke c op)) h))"
proof -
  have "\<exists>r. trace (invoke c op h) = [Call c r]"
    by (simp add: invoke_def trace_def split: prod.splits option.splits)
  then obtain r where "trace (invoke c op h) = [Call c r]" ..
  then have "trace (bind (get g) (\<lambda>n'.
              bind (print [Txt ''[Decimate] After: '', NumSep n', Txt '' verts''])
                (\<lambda>_. invoke c op)) h) = [] @ [after_msg (g h), Call c r]"
    by (simp add: trace_bind_get trace_bind_print after_msg_def)
  moreover have "list_all is_call [] \<and> is_call (Call c r)" by simp
  ultimately show ?thesis
    using assms unfolding calls_then_after_def by blast
qed

lemma lr_processing:
  assumes "calls_then_after n es"
  shows "logs_reduce (Print [Txt ''[Decimate] Processing: '', Txt name, Txt '' ('', NumSep n,
                             Txt '' verts)''] # es)"
proof -
  let ?p = "Print [Txt ''[Decimate] Processing: '', Txt name, Txt '' ('', NumSep n,
                   Txt '' verts)'']"
  from assms consider "list_all is_call es"
    | calls n' c where "es = calls @ [after_msg n', c]" "list_all is_call calls" "is_call c" "n' \<le> n"
    unfolding calls_then_after_def by blast
  then show ?thesis
  proof cases
    case 1
    show ?thesis
    proof (rule logs_reduce_plain)
      fix k
      from 1 have "after_msg k \<notin> set es"
        by (auto simp: list_all_iff after_msg_def)
      then show "after_msg k \<notin> set (?p # es)" by (simp add: after_msg_def)
    qed
  next
    case 2
    show ?thesis
      unfolding logs_reduce_def
    proof (intro allI impI)
      fix pre k post
      assume "?p # es = pre @ after_msg k # post"
      with 2(1) have e: "(?p # calls) @ after_msg n' # [c] = pre @ after_msg k # post" by simp
      have "pre = ?p # calls \<and> after_msg k = after_msg n' \<and> post = [c]"
      proof (rule unique_split [OF e, of "\<lambda>ev. \<exists>j. ev = after_msg j"])
        show "\<exists>j. after_msg k = after_msg j" by blast
        from 2(2) show "\<forall>a \<in> set (?p # calls). \<not> (\<exists>j. a = after_msg j)"
          by (auto simp: list_all_iff after_msg_def)
        from 2(3) show "\<forall>b \<in> set [c]. \<not> (\<exists>j. b = after_msg j)"
          by (auto simp: after_msg_def)
      qed
      then have "pre = [] @ processing_msg name n # calls" and "k = n'"
        by (simp_all add: processing_msg_def after_msg_def)
      with 2(2,4) show "\<exists>before name n calls. pre = before @ processing_msg name n # calls \<and>
           (\<forall>ev \<in> set calls. is_call ev) \<and> k \<le> n"
        by (metis list_all_iff)
    qed
  qed
qed

lemma lr_decimate_mesh:
  assumes "decimation_reduces env"
  shows "logs_reduce (trace (decimate_mesh env obj h))"
proof -
  note r = reduces_facts [OF assms]
  show ?thesis
    unfolding decimate_mesh_def trace_bind_get trace_bind_print
    by (intro lr_processing cta_invoke_bind cta_invoke_new_bind cta_final)
       (auto dest!: r [where obj = obj])
qed

lemma lr_main:
  assumes "decimation_reduces env"
  shows "logs_reduce (trace (main env sf h0))"
  unfolding main_def Let_def
  by (intro lr_bind lr_if lr_print lr_steps lr_for_each lr_select_mesh lr_decimate_mesh [OF assms])
     (simp_all add: after_msg_def)

subsection \<open>What a piece of script leaves unchanged\<close>

lemma keeps_bind: "keeps I m \<Longrightarrow> (\<And>a. keeps I (f a)) \<Longrightarrow> keeps I (bind m f)"
  by (auto simp: keeps_def final_bind split: result.splits)

lemma keeps_steps:
  "keeps I (print ps)" "keeps I (get g)" "keeps I (ret a)" "keeps I (sys_exit k)"
  "keeps I (true_div x y)" "keeps I (invoke_getsize c op')"
  by (simp_all add: keeps_def print_def get_def ret_def sys_exit_def true_div_def
        invoke_getsize_def final_def split: sum.splits)

lemma final_invoke: "final (invoke c op h) = snd (op h)"
  by (simp add: invoke_def final_def split: prod.splits option.splits)

lemma final_invoke_new: "final (invoke_new c op h) = snd (op h)"
  by (simp add: invoke_new_def final_def split: prod.splits sum.splits)

lemma keeps_invoke: "(\<And>h. I h \<Longrightarrow> I (snd (op h))) \<Longrightarrow> keeps I (invoke c op)"
  by (simp add: keeps_def final_invoke)

lemma keeps_invoke_new: "(\<And>h. I h \<Longrightarrow> I (snd (op h))) \<Longrightarrow> keeps I (invoke_new c op)"
  by (simp add: keeps_def final_invoke_new)

lemma keeps_if: "keeps I m1 \<Longrightarrow> keeps I m2 \<Longrightarrow> keeps I (if c then m1 else m2)"
  by simp

lemma keeps_for_each: "(\<And>x. keeps I (body x)) \<Longrightarrow> keeps I (for_each xs body)"
proof (induction xs)
  case Nil
  show ?case by (simp add: keeps_def ret_def final_def)
next
  case (Cons x xs)
  have "keeps I (bind (body x) (\<lambda>_. for_each xs body))"
    by (rule keeps_bind) (simp_all add: Cons)
  then show ?case by (simp add: keeps_def)
qed

lemma keeps_main:
  assumes "writes_only_on_export env contents"
  shows "keeps (\<lambda>h. contents h (input_file sf) = v) (main env sf)"
proof -
  note w = assms [unfolded writes_only_on_export_def]
  have x: "contents (snd (export_scene_gltf env (output_file sf) ''GLB'' True True h)) (input_file sf)
             = contents h (input_file sf)" for h
    using w input_output_distinct [of sf] by blast
  show ?thesis
    unfolding main_paths Let_def decimate_mesh_def select_mesh_def
    by (intro keeps_bind keeps_if keeps_steps keeps_invoke keeps_invoke_new keeps_for_each)
       (simp_all add: w x)
qed

subsection \<open>The concrete host meets what is assumed of a host\<close>

lemma demo_reduces: "decimation_reduces (demo_host objs types verts fault)"
  by (auto simp: decimation_reduces_def demo_host_def split: if_splits option.splits)

lemma demo_writes:
  "writes_only_on_export (demo_host objs types verts fault) (\<lambda>h. map_of (ds_files h))"
  by (auto simp: writes_only_on_export_def demo_host_def split: option.splits)

section \<open>The claims\<close>

lemmas run_defs = main_def bind_def print_def get_def sys_exit_def invoke_def invoke_new_def
  invoke_getsize_def true_div_def ret_def decimate_mesh_def select_mesh_def mesh_objects_def
  total_verts_def outcome_def trace_def final_def

lemmas demo_defs = demo_host_def demo_types_def demo_verts_def demo_start_def demo_script_def
  INPUT_PATH_def OUTPUT_PATH_def dirname_def join_def sep_def rstrip_sep_def Let_def
  input_file_def output_file_def

text \<open>
  C8: every failure other than the two checked conditions propagates unhandled out of
  \<open>main\<close>. In every run, a host call that raises is the last effect of the run (nothing
  is retried, nothing is printed, no further call is made) and its error is the outcome
  of \<open>main\<close>; and whenever \<open>main\<close> ends with a host error, the run ends at the call
  that raised it.
\<close>

theorem host_errors_propagate:
  "(\<forall>pre c e post. trace (main env sf h0) = pre @ Call c (Raised e) # post \<longrightarrow>
      post = [] \<and> outcome (main env sf h0) = Raise (HostError e)) \<and>
   (\<forall>e. outcome (main env sf h0) = Raise (HostError e) \<longrightarrow>
      (\<exists>pre c. trace (main env sf h0) = pre @ [Call c (Raised e)]))"
proof (intro conjI allI impI)
  fix pre c e post
  assume t: "trace (main env sf h0) = pre @ Call c (Raised e) # post"
  have p: "propagates (main env sf h0)" by (rule propagates_main)
  from t have r: "raised_errors (trace (main env sf h0)) =
      raised_errors pre @ e # raised_errors post"
    by (simp add: raised_errors_append)
  with p have o: "outcome (main env sf h0) = Raise (HostError e)" and "raised_errors post = []"
    by (auto simp: propagates_def singleton_split split: result.splits error.splits)
  show "outcome (main env sf h0) = Raise (HostError e)" by (rule o)
  show "post = []"
  proof (rule ccontr)
    assume "post \<noteq> []"
    with t have "last (trace (main env sf h0)) = last post" and "last post \<in> set post"
      by simp_all
    moreover from p o obtain c' where "last (trace (main env sf h0)) = Call c' (Raised e)"
      by (auto simp: propagates_def)
    ultimately have "Call c' (Raised e) \<in> set post" by simp
    then have "raised_errors post \<noteq> []" by (rule raised_errors_mem)
    with \<open>raised_errors post = []\<close> show False by simp
  qed
next
  fix e
  assume o: "outcome (main env sf h0) = Raise (HostError e)"
  have "propagates (main env sf h0)" by (rule propagates_main)
  with o obtain c where "trace (main env sf h0) \<noteq> []"
    and "last (trace (main env sf h0)) = Call c (Raised e)"
    by (auto simp: propagates_def)
  then have "trace (main env sf h0) = butlast (trace (main env sf h0)) @ [Call c (Raised e)]"
    by (metis append_butlast_last_id)
  then show "\<exists>pre c. trace (main env sf h0) = pre @ [Call c (Raised e)]" by blast
qed

theorem host_errors_propagate_witness:
  "trace (main (demo_host [0, 1] demo_types demo_verts ''modifier_apply'') demo_script demo_start) =
     (imported demo_script @
      [found_msg 2 475000, processing_msg ''Shell'' 474000,
       Call (SetActive 0) Returned, Call (SelectSet 0 True) Returned,
       Call (ModifiersNew 0 ''Decimate'' ''DECIMATE'') (ReturnedModifier 0),
       Call (SetDecimateType 0 ''COLLAPSE'') Returned,
       Call (SetRatio 0 TARGET_RATIO) Returned,
       Call (SetUseCollapseTriangulate 0 True) Returned]) @
     Call (ModifierApply ''Decimate'') (Raised ''RuntimeError'') # [] \<and>
   outcome (main (demo_host [0, 1] demo_types demo_verts ''modifier_apply'') demo_script demo_start) =
     Raise (HostError ''RuntimeError'')"
proof -
  let ?run = "main (demo_host [0, 1] demo_types demo_verts ''modifier_apply'') demo_script demo_start"
  let ?pre = "imported demo_script @
      [found_msg 2 475000, processing_msg ''Shell'' 474000,
       Call (SetActive 0) Returned, Call (SelectSet 0 True) Returned,
       Call (ModifiersNew 0 ''Decimate'' ''DECIMATE'') (ReturnedModifier 0),
       Call (SetDecimateType 0 ''COLLAPSE'') Returned,
       Call (SetRatio 0 TARGET_RATIO) Returned,
       Call (SetUseCollapseTriangulate 0 True) Returned]"
  have t: "trace ?run = ?pre @ Call (ModifierApply ''Decimate'') (Raised ''RuntimeError'') # []"
    by (simp add: run_defs demo_defs msg_defs)
  with host_errors_propagate [of "demo_host [0, 1] demo_types demo_verts ''modifier_apply''"
      demo_script demo_start]
  have "outcome ?run = Raise (HostError ''RuntimeError'')" by blast
  with t show ?thesis by simp
qed

text \<open>
  C5: in every run in which the scene has no mesh object once the import has returned,
  the script exits with code 1 right after printing the error, and no export call is
  among the effects of the run.
\<close>

theorem empty_scene_exits_without_export:
  assumes "after_import env sf h0 = Some h2" and "mesh_objects env h2 = []"
  shows "outcome (main env sf h0) = Exit 1 \<and>
         trace (main env sf h0) = imported sf @ [no_mesh_error] \<and>
         (\<forall>ev \<in> set (trace (main env sf h0)). \<not> is_export ev)"
  using main_no_mesh [OF assms]
  by (simp add: outcome_def trace_def msg_defs)

theorem empty_scene_exits_without_export_witness:
  "after_import (demo_host [2] demo_types demo_verts []) demo_script demo_start =
     Some \<lparr>ds_scene = [2], ds_verts = demo_verts, ds_active = None, ds_files = []\<rparr> \<and>
   mesh_objects (demo_host [2] demo_types demo_verts [])
     \<lparr>ds_scene = [2], ds_verts = demo_verts, ds_active = None, ds_files = []\<rparr> = [] \<and>
   outcome (main (demo_host [2] demo_types demo_verts []) demo_script demo_start) = Exit 1 \<and>
   trace (main (demo_host [2] demo_types demo_verts []) demo_script demo_start) =
     imported demo_script @ [no_mesh_error]"
proof -
  let ?env = "demo_host [2] demo_types demo_verts []"
  let ?h2 = "\<lparr>ds_scene = [2], ds_verts = demo_verts, ds_active = None, ds_files = []\<rparr>"
  have a: "after_import ?env demo_script demo_start = Some ?h2"
    by (simp add: after_import_def demo_host_def demo_start_def)
  have b: "mesh_objects ?env ?h2 = []"
    by (simp add: mesh_objects_def demo_host_def demo_types_def)
  from empty_scene_exits_without_export [OF a b] a b show ?thesis by simp
qed



text \<open>
  C3: the report of line 67 is printed exactly in the runs that reach it: the import
  has returned, the decimation loop has completed and the total before is not zero.
  The three numbers it reports are the sum of the vertex counts of the mesh objects in
  the state after the import, the same sum in the state after the decimation loop, and
  \<open>(1 - after / before) * 100\<close>, computed over the reals. (The format \<^verbatim>\<open>:.1f\<close>
  then renders the percentage with one decimal.)
\<close>

theorem reduction_report:
  "total_msg b a red \<in> set (trace (main env sf h0)) \<longleftrightarrow>
     (\<exists>h2 h3. after_import env sf h0 = Some h2 \<and> after_decimation env sf h0 = Some h3 \<and>
        b = total_verts env (mesh_objects env h2) h2 \<and>
        a = total_verts env (mesh_objects env h2) h3 \<and>
        b \<noteq> 0 \<and> red = (1 - real a / real b) * 100)"
proof (cases rule: main_cases [of env h0 sf])
  case (reset_raises e h1)
  then show ?thesis
    by (auto simp: trace_def after_import_iff total_msg_other total_msg_not_imported)
next
  case (import_raises e h1 h2)
  then show ?thesis
    by (auto simp: trace_def after_import_iff total_msg_other total_msg_not_imported)
next
  case (no_mesh h2)
  then show ?thesis
    by (auto simp: trace_def after_decimation_iff total_msg_other total_msg_not_imported)
next
  case (decimation_stops h2 r es3 h3)
  then show ?thesis
    using decimation_loop_events [OF decimation_stops(3), of "total_msg b a red"]
    by (auto simp: trace_def after_decimation_iff total_msg_other total_msg_not_imported
          total_msg_not_loop_event)
next
  case (zero_division h2 es3 h3)
  then show ?thesis
    using decimation_loop_events [OF zero_division(3), of "total_msg b a red"]
    by (auto simp: trace_def after_decimation_iff total_msg_other total_msg_not_imported
          total_msg_not_loop_event)
next
  case (selection_stops h2 es3 h3 r es4 h4)
  then show ?thesis
    using selection_loop_events [OF selection_stops(5), of "total_msg b a red"]
    by (auto simp: trace_def after_decimation_iff total_msg_other total_msg_in_decimated
          total_msg_not_loop_event)
next
  case (export_raises h2 es3 h3 es4 h4 e h5)
  then show ?thesis
    using selection_loop_events [OF export_raises(5), of "total_msg b a red"]
    by (auto simp: trace_def after_decimation_iff total_msg_other total_msg_in_decimated
          total_msg_not_loop_event)
next
  case (output_missing h2 es3 h3 es4 h4 h5)
  then show ?thesis
    using selection_loop_events [OF output_missing(5), of "total_msg b a red"]
    by (auto simp: trace_def exported_def after_decimation_iff total_msg_other
          total_msg_in_decimated total_msg_not_loop_event)
next
  case (getsize_raises h2 es3 h3 es4 h4 h5 e)
  then show ?thesis
    using selection_loop_events [OF getsize_raises(5), of "total_msg b a red"]
    by (auto simp: trace_def exported_def after_decimation_iff total_msg_other
          total_msg_in_decimated total_msg_not_loop_event)
next
  case (success h2 es3 h3 es4 h4 h5 n)
  then show ?thesis
    using selection_loop_events [OF success(5), of "total_msg b a red"]
    by (auto simp: trace_def exported_def after_decimation_iff total_msg_other
          total_msg_in_decimated total_msg_not_loop_event)
qed


theorem reduction_report_witness:
  "after_import (demo_host [0, 1] demo_types demo_verts []) demo_script demo_start \<noteq> None \<and>
   after_decimation (demo_host [0, 1] demo_types demo_verts []) demo_script demo_start \<noteq> None \<and>
   total_verts (demo_host [0, 1] demo_types demo_verts []) [0, 1]
     (the (after_import (demo_host [0, 1] demo_types demo_verts []) demo_script demo_start)) = 475000 \<and>
   total_verts (demo_host [0, 1] demo_types demo_verts []) [0, 1]
     (the (after_decimation (demo_host [0, 1] demo_types demo_verts []) demo_script demo_start)) = 9500 \<and>
   total_msg 475000 9500 98 \<in>
     set (trace (main (demo_host [0, 1] demo_types demo_verts []) demo_script demo_start))"
proof -
  let ?env = "demo_host [0, 1] demo_types demo_verts []"
  have e: "\<exists>h2 h3. after_import ?env demo_script demo_start = Some h2 \<and>
      after_decimation ?env demo_script demo_start = Some h3 \<and>
      475000 = total_verts ?env (mesh_objects ?env h2) h2 \<and>
      9500 = total_verts ?env (mesh_objects ?env h2) h3 \<and>
      (475000 :: nat) \<noteq> 0 \<and> (98 :: real) = (1 - real 9500 / real 475000) * 100"
    by (simp add: after_decimation_def after_import_def run_defs demo_defs)
  with reduction_report [of 475000 9500 98 ?env demo_script demo_start]
  have m: "total_msg 475000 9500 98 \<in> set (trace (main ?env demo_script demo_start))"
    by blast
  have "after_import ?env demo_script demo_start \<noteq> None"
    and "after_decimation ?env demo_script demo_start \<noteq> None"
    and "total_verts ?env [0, 1] (the (after_import ?env demo_script demo_start)) = 475000"
    and "total_verts ?env [0, 1] (the (after_decimation ?env demo_script demo_start)) = 9500"
    by (simp_all add: after_decimation_def after_import_def run_defs demo_defs)
  with m show ?thesis by simp
qed

text \<open>
  C4: every import call of a run is given the path \<open>INPUT_PATH\<close> joined to the
  parent of the directory of the script file, and every export call the path
  \<open>OUTPUT_PATH\<close> joined to the same directory; the import is called as soon as the
  scene reset returns. For a script stored as \<^verbatim>\<open>scripts/decimate_beetle.py\<close> under a
  project directory, the two paths are the constants below that project directory.
\<close>

theorem paths_relative_to_script:
  "(\<forall>ev \<in> set (trace (main env sf h0)).
      (\<forall>p r. ev = Call (ImportGltf p) r \<longrightarrow> p = join (dirname (dirname sf)) INPUT_PATH) \<and>
      (\<forall>p f us ea r. ev = Call (ExportGltf p f us ea) r \<longrightarrow>
         p = join (dirname (dirname sf)) OUTPUT_PATH)) \<and>
   (\<forall>h1. read_factory_settings env True h0 = (None, h1) \<longrightarrow>
      (\<exists>r. Call (ImportGltf (join (dirname (dirname sf)) INPUT_PATH)) r
              \<in> set (trace (main env sf h0)))) \<and>
   (\<forall>proj. proj \<noteq> [] \<and> last proj \<noteq> sep \<and> sf = proj @ ''/scripts/decimate_beetle.py'' \<longrightarrow>
      join (dirname (dirname sf)) INPUT_PATH = proj @ ''/'' @ INPUT_PATH \<and>
      join (dirname (dirname sf)) OUTPUT_PATH = proj @ ''/'' @ OUTPUT_PATH)"
proof (intro conjI allI impI ballI)
  fix ev p r
  assume "ev \<in> set (trace (main env sf h0))" and "ev = Call (ImportGltf p) r"
  with emits_main_paths [of sf env] show "p = join (dirname (dirname sf)) INPUT_PATH"
    by (auto simp: emits_def import_export_paths_def input_file_def)
next
  fix ev p f us ea r
  assume "ev \<in> set (trace (main env sf h0))" and "ev = Call (ExportGltf p f us ea) r"
  with emits_main_paths [of sf env] show "p = join (dirname (dirname sf)) OUTPUT_PATH"
    by (auto simp: emits_def import_export_paths_def output_file_def)
next
  fix h1
  assume r: "read_factory_settings env True h0 = (None, h1)"
  have "\<exists>r. Call (ImportGltf (input_file sf)) r \<in> set (trace (main env sf h0))"
  proof (cases rule: main_cases [of env h0 sf])
    case (reset_raises e h1)
    with r show ?thesis by simp
  next
    case (import_raises e h1 h2)
    then show ?thesis by (auto simp: trace_def)
  qed (auto simp: trace_def imported_def exported_def decimated_def Let_def)
  then show "\<exists>r. Call (ImportGltf (join (dirname (dirname sf)) INPUT_PATH)) r
              \<in> set (trace (main env sf h0))"
    by (simp add: input_file_def)
next
  fix proj
  assume a: "proj \<noteq> [] \<and> last proj \<noteq> sep \<and> sf = proj @ ''/scripts/decimate_beetle.py''"
  then have d: "dirname (dirname sf) = proj"
    by (simp add: project_root_of_layout)
  from a show "join (dirname (dirname sf)) INPUT_PATH = proj @ ''/'' @ INPUT_PATH"
    unfolding d by (simp add: join_def INPUT_PATH_def sep_def)
  from a show "join (dirname (dirname sf)) OUTPUT_PATH = proj @ ''/'' @ OUTPUT_PATH"
    unfolding d by (simp add: join_def OUTPUT_PATH_def sep_def)
qed

theorem paths_relative_to_script_witness:
  "Call (ImportGltf (join (dirname (dirname demo_script)) INPUT_PATH)) Returned
     \<in> set (trace (main (demo_host [0, 1] demo_types demo_verts []) demo_script demo_start)) \<and>
   Call (ExportGltf (join (dirname (dirname demo_script)) OUTPUT_PATH) ''GLB'' True True) Returned
     \<in> set (trace (main (demo_host [0, 1] demo_types demo_verts []) demo_script demo_start)) \<and>
   join (dirname (dirname demo_script)) INPUT_PATH =
     ''/home/u/sphere/public/assets/models/beetle_shell.glb'' \<and>
   join (dirname (dirname demo_script)) OUTPUT_PATH =
     ''/home/u/sphere/public/assets/models/beetle_shell_optimized.glb''"
proof -
  let ?env = "demo_host [0, 1] demo_types demo_verts []"
  have s: "''/home/u/sphere'' \<noteq> [] \<and> last ''/home/u/sphere'' \<noteq> sep \<and>
           demo_script = ''/home/u/sphere'' @ ''/scripts/decimate_beetle.py''"
    by (simp add: demo_script_def sep_def)
  with paths_relative_to_script [of ?env demo_script demo_start]
  have "join (dirname (dirname demo_script)) INPUT_PATH = ''/home/u/sphere'' @ ''/'' @ INPUT_PATH"
    and "join (dirname (dirname demo_script)) OUTPUT_PATH = ''/home/u/sphere'' @ ''/'' @ OUTPUT_PATH"
    by blast+
  moreover have
    "Call (ImportGltf (join (dirname (dirname demo_script)) INPUT_PATH)) Returned
       \<in> set (trace (main ?env demo_script demo_start))"
    "Call (ExportGltf (join (dirname (dirname demo_script)) OUTPUT_PATH) ''GLB'' True True) Returned
       \<in> set (trace (main ?env demo_script demo_start))"
    by (simp_all add: run_defs demo_defs)
  ultimately show ?thesis by (simp add: INPUT_PATH_def OUTPUT_PATH_def)
qed

text \<open>
  C9: the division of line 66 is unguarded. \<open>main\<close> ends with \<open>ZeroDivisionError\<close>
  exactly when the import has returned, the decimation loop has completed and the sum
  of the vertex counts before the loop is zero. In every run in which the scene has a
  mesh object after the import and that sum is zero, \<open>main\<close> neither returns normally
  nor calls \<^verbatim>\<open>sys.exit\<close>: it ends with an exception, the \<open>ZeroDivisionError\<close> when
  the loop completes and otherwise the host error raised inside the loop.
\<close>

theorem division_unguarded:
  "(outcome (main env sf h0) = Raise ZeroDivisionError \<longleftrightarrow>
      (\<exists>h2 h3. after_import env sf h0 = Some h2 \<and> after_decimation env sf h0 = Some h3 \<and>
         total_verts env (mesh_objects env h2) h2 = 0)) \<and>
   (\<forall>h2. after_import env sf h0 = Some h2 \<and> mesh_objects env h2 \<noteq> [] \<and>
         total_verts env (mesh_objects env h2) h2 = 0 \<longrightarrow>
      outcome (main env sf h0) \<noteq> Done () \<and> (\<forall>n. outcome (main env sf h0) \<noteq> Exit n))"
proof (cases rule: main_cases [of env h0 sf])
  case (reset_raises e h1)
  then show ?thesis by (auto simp: outcome_def after_import_iff)
next
  case (import_raises e h1 h2)
  then show ?thesis by (auto simp: outcome_def after_import_iff)
next
  case (no_mesh h2)
  then show ?thesis by (auto simp: outcome_def after_decimation_iff)
next
  case (decimation_stops h2 r es3 h3)
  then show ?thesis
    by (cases r) (auto simp: outcome_def after_decimation_iff decimation_loop_no_exit
          decimation_loop_no_zdiv)
next
  case (zero_division h2 es3 h3)
  then show ?thesis by (auto simp: outcome_def after_decimation_iff)
next
  case (selection_stops h2 es3 h3 r es4 h4)
  then show ?thesis
    by (cases r) (auto simp: outcome_def after_decimation_iff selection_loop_no_exit
          selection_loop_no_zdiv)
next
  case (export_raises h2 es3 h3 es4 h4 e h5)
  then show ?thesis by (auto simp: outcome_def after_decimation_iff)
next
  case (output_missing h2 es3 h3 es4 h4 h5)
  then show ?thesis by (auto simp: outcome_def after_decimation_iff)
next
  case (getsize_raises h2 es3 h3 es4 h4 h5 e)
  then show ?thesis by (auto simp: outcome_def after_decimation_iff)
next
  case (success h2 es3 h3 es4 h4 h5 n)
  then show ?thesis by (auto simp: outcome_def after_decimation_iff)
qed

theorem division_unguarded_witness:
  "after_import (demo_host [3] demo_types demo_verts []) demo_script demo_start \<noteq> None \<and>
   after_decimation (demo_host [3] demo_types demo_verts []) demo_script demo_start \<noteq> None \<and>
   mesh_objects (demo_host [3] demo_types demo_verts [])
     (the (after_import (demo_host [3] demo_types demo_verts []) demo_script demo_start)) = [3] \<and>
   total_verts (demo_host [3] demo_types demo_verts []) [3]
     (the (after_import (demo_host [3] demo_types demo_verts []) demo_script demo_start)) = 0 \<and>
   outcome (main (demo_host [3] demo_types demo_verts []) demo_script demo_start) =
     Raise ZeroDivisionError"
proof -
  let ?env = "demo_host [3] demo_types demo_verts []"
  have e: "\<exists>h2 h3. after_import ?env demo_script demo_start = Some h2 \<and>
      after_decimation ?env demo_script demo_start = Some h3 \<and>
      total_verts ?env (mesh_objects ?env h2) h2 = 0"
    by (simp add: after_decimation_def after_import_def run_defs demo_defs)
  with division_unguarded [of ?env demo_script demo_start]
  have o: "outcome (main ?env demo_script demo_start) = Raise ZeroDivisionError"
    by blast
  have "after_import ?env demo_script demo_start \<noteq> None"
    and "after_decimation ?env demo_script demo_start \<noteq> None"
    and "mesh_objects ?env (the (after_import ?env demo_script demo_start)) = [3]"
    and "total_verts ?env [3] (the (after_import ?env demo_script demo_start)) = 0"
    by (simp_all add: after_decimation_def after_import_def run_defs demo_defs)
  with o show ?thesis by simp
qed

text \<open>
  The exception need not be the \<open>ZeroDivisionError\<close>: on a host whose modifier
  application raises, a run with one mesh object of zero vertices ends with the host's
  error at line 60 and never reaches the division.
\<close>

theorem zero_total_host_error_counterexample:
  "after_import (demo_host [3] demo_types demo_verts ''modifier_apply'') demo_script demo_start
     \<noteq> None \<and>
   mesh_objects (demo_host [3] demo_types demo_verts ''modifier_apply'')
     (the (after_import (demo_host [3] demo_types demo_verts ''modifier_apply'')
        demo_script demo_start)) = [3] \<and>
   total_verts (demo_host [3] demo_types demo_verts ''modifier_apply'') [3]
     (the (after_import (demo_host [3] demo_types demo_verts ''modifier_apply'')
        demo_script demo_start)) = 0 \<and>
   outcome (main (demo_host [3] demo_types demo_verts ''modifier_apply'') demo_script demo_start) =
     Raise (HostError ''RuntimeError'') \<and>
   outcome (main (demo_host [3] demo_types demo_verts ''modifier_apply'') demo_script demo_start) \<noteq>
     Raise ZeroDivisionError"
  by (simp add: after_import_def run_defs demo_defs)






text \<open>
  C6: on a host whose decimation never increases a vertex count, every line
  \<^verbatim>\<open>After: n' verts\<close> of a run comes after a line \<^verbatim>\<open>Processing: name (n verts)\<close> with
  \<open>n' \<le> n\<close>, and only host calls lie between the two: they are the two lines of the
  same pass of the loop, for the same mesh object.
\<close>

theorem after_count_le_before:
  assumes "decimation_reduces env"
    and "trace (main env sf h0) = pre @ after_msg n' # post"
  shows "\<exists>before name n calls. pre = before @ processing_msg name n # calls \<and>
           (\<forall>ev \<in> set calls. is_call ev) \<and> n' \<le> n"
  using lr_main [OF assms(1), of sf h0] assms(2) unfolding logs_reduce_def by blast

theorem after_count_le_before_witness:
  "decimation_reduces (demo_host [0] demo_types demo_verts []) \<and>
   trace (main (demo_host [0] demo_types demo_verts []) demo_script demo_start) =
     demo_one_before @ after_msg 9480 # demo_one_after \<and>
   (\<exists>before name n calls. demo_one_before = before @ processing_msg name n # calls \<and>
      list_all is_call calls \<and> 9480 \<le> n)"
proof -
  let ?env = "demo_host [0] demo_types demo_verts []"
  have r: "decimation_reduces ?env" by (rule demo_reduces)
  have t: "trace (main ?env demo_script demo_start) =
      demo_one_before @ after_msg 9480 # demo_one_after"
    by (simp add: run_defs demo_defs msg_defs demo_one_before_def demo_one_after_def)
  from after_count_le_before [OF r t] obtain before name n calls where
    "demo_one_before = before @ processing_msg name n # calls"
    "\<forall>ev \<in> set calls. is_call ev" "9480 \<le> n"
    by blast
  then have "\<exists>before name n calls. demo_one_before = before @ processing_msg name n # calls \<and>
      list_all is_call calls \<and> 9480 \<le> n"
    by (auto simp: list_all_iff)
  with r t show ?thesis by simp
qed

text \<open>
  C10: on a host whose calls leave files alone, except the export at the path it is
  given, whatever can be observed of the input file is the same after the run as
  before it, however the run ends. The input path differs from the output path, as
  the two constants do, and every export call of a run is given the output path.
\<close>

theorem input_file_untouched:
  assumes "writes_only_on_export env contents"
  shows "contents (final (main env sf h0)) (input_file sf) = contents h0 (input_file sf) \<and>
         input_file sf \<noteq> output_file sf \<and> INPUT_PATH \<noteq> OUTPUT_PATH \<and>
         (\<forall>ev \<in> set (trace (main env sf h0)).
            \<forall>p f us ea r. ev = Call (ExportGltf p f us ea) r \<longrightarrow> p = output_file sf)"
proof (intro conjI)
  from keeps_main [OF assms, of sf "contents h0 (input_file sf)"]
  show "contents (final (main env sf h0)) (input_file sf) = contents h0 (input_file sf)"
    by (simp add: keeps_def)
  show "input_file sf \<noteq> output_file sf" by (rule input_output_distinct)
  show "INPUT_PATH \<noteq> OUTPUT_PATH" by (simp add: INPUT_PATH_def OUTPUT_PATH_def)
  from emits_main_paths [of sf env]
  show "\<forall>ev \<in> set (trace (main env sf h0)).
          \<forall>p f us ea r. ev = Call (ExportGltf p f us ea) r \<longrightarrow> p = output_file sf"
    by (auto simp: emits_def import_export_paths_def)
qed

theorem input_file_untouched_witness:
  "writes_only_on_export (demo_host [0, 1] demo_types demo_verts []) (\<lambda>h. map_of (ds_files h)) \<and>
   map_of (ds_files demo_with_input) (input_file demo_script) = Some 41943040 \<and>
   map_of (ds_files (final (main (demo_host [0, 1] demo_types demo_verts []) demo_script
      demo_with_input))) (input_file demo_script) = Some 41943040 \<and>
   map_of (ds_files (final (main (demo_host [0, 1] demo_types demo_verts []) demo_script
      demo_with_input))) (output_file demo_script) = Some 2097152"
proof -
  let ?env = "demo_host [0, 1] demo_types demo_verts []"
  have w: "writes_only_on_export ?env (\<lambda>h. map_of (ds_files h))" by (rule demo_writes)
  have i: "map_of (ds_files demo_with_input) (input_file demo_script) = Some 41943040"
    by (simp add: demo_with_input_def demo_start_def)
  from input_file_untouched [OF w, of demo_script demo_with_input] i
  have "map_of (ds_files (final (main ?env demo_script demo_with_input))) (input_file demo_script)
          = Some 41943040"
    by simp
  moreover have
    "map_of (ds_files (final (main ?env demo_script demo_with_input))) (output_file demo_script)
       = Some 2097152"
    by (simp add: run_defs demo_defs demo_with_input_def)
  ultimately show ?thesis using w i by simp
qed

end
